theory Spec2Isabelle
  imports Main
begin

section \<open>Exceptions and statements\<close>

text \<open>
  The exceptions the commit pipeline raises or lets through. \<open>DatabaseError cls msg\<close> is an
  exception of the database driver module, of class \<open>cls\<close> (DB-API: \<open>DatabaseError\<close>,
  \<open>ProgrammingError\<close>, \<open>OperationalError\<close>, ...), with message \<open>msg\<close>. The others
  are the Python and ZODB classes of the same name; \<open>POSKeyError\<close> is the not-found error
  the blob helper raises (\<open>s3blobhelper.py\<close>).
\<close>

datatype exn =
    UnableToAcquireCommitLockError string
  | Unsupported string
  | AssertionError
  | TypeError string
  | IndexError
  | ValueError string
  | AttributeError string
  | IOError string
  | POSKeyError string
  | DatabaseError string string

text \<open>\<open>"%s" % e\<close>: the message of an exception.\<close>

fun str_exn :: "exn \<Rightarrow> string" where
  "str_exn (UnableToAcquireCommitLockError m) = m"
| "str_exn (Unsupported m) = m"
| "str_exn AssertionError = []"
| "str_exn (TypeError m) = m"
| "str_exn IndexError = []"
| "str_exn (ValueError m) = m"
| "str_exn (AttributeError m) = m"
| "str_exn (IOError m) = m"
| "str_exn (POSKeyError m) = m"
| "str_exn (DatabaseError c m) = m"

fun class_name :: "exn \<Rightarrow> string" where
  "class_name (UnableToAcquireCommitLockError m) = ''UnableToAcquireCommitLockError''"
| "class_name (Unsupported m) = ''Unsupported''"
| "class_name AssertionError = ''AssertionError''"
| "class_name (TypeError m) = ''TypeError''"
| "class_name IndexError = ''IndexError''"
| "class_name (ValueError m) = ''ValueError''"
| "class_name (AttributeError m) = ''AttributeError''"
| "class_name (IOError m) = ''IOError''"
| "class_name (POSKeyError m) = ''POSKeyError''"
| "class_name (DatabaseError c m) = c"

text \<open>
  The SQL statements of the locker and the mover, by shape. The source holds them as text;
  each constructor stands for one text, with the table name or clause the source formats
  into it:
  \<^item> \<open>Detect_conflict t\<close>:
    \<^verbatim>\<open>SELECT zoid, t.tid, temp_store.prev_tid FROM temp_store JOIN t USING (zoid)
       WHERE temp_store.prev_tid != t.tid ORDER BY zoid\<close>
  \<^item> \<open>Get_current_objects t\<close>:
    \<^verbatim>\<open>SELECT zoid FROM t WHERE zoid IN (SELECT zoid FROM temp_store)\<close>
  \<^item> \<open>Order_by_zoid select lock\<close>: \<^verbatim>\<open>{select} ORDER BY ZOID {lock}\<close>
  \<^item> \<open>Commit_lock\<close>: \<^verbatim>\<open>SELECT tid FROM commit_row_lock FOR UPDATE\<close>
  \<^item> \<open>Append q ext\<close>: the text of \<open>q\<close> followed by \<open>ext\<close> (as in \<^verbatim>\<open>q + ' NOWAIT'\<close>)
  \<^item> \<open>Select_in columns t column values suffix\<close>: the statement the row batcher issues,
    \<^verbatim>\<open>SELECT columns FROM t WHERE column IN (values) suffix\<close>
  \<^item> \<open>Update_current_insert\<close>:
    \<^verbatim>\<open>INSERT INTO current_object (zoid, tid)
       SELECT zoid, tid FROM object_state WHERE tid = %s AND prev_tid = 0\<close>
  \<^item> \<open>Update_current_update\<close>:
    \<^verbatim>\<open>UPDATE current_object SET tid = %s WHERE zoid IN (
       SELECT zoid FROM object_state WHERE tid = %s AND prev_tid != 0 ORDER BY zoid)\<close>
  \<^item> \<open>Select_blob_chunk\<close>:
    \<^verbatim>\<open>SELECT chunk FROM blob_chunk WHERE zoid = %s AND tid = %s ORDER BY chunk_num\<close>
  \<^item> \<open>Execute_prepared name\<close>: \<^verbatim>\<open>EXECUTE name(%s)\<close>, a statement prepared earlier
\<close>

datatype sql =
    Detect_conflict string
  | Get_current_objects string
  | Order_by_zoid sql string
  | Commit_lock
  | Append sql string
  | Select_in "string list" string string "int list" string
  | Update_current_insert
  | Update_current_update
  | Select_blob_chunk
  | Execute_prepared string

section \<open>The query variant selector (\<open>_util.py\<close>)\<close>

text \<open>
  A member of a \<open>*_queries\<close> pair: a statement, a (statement, table) tuple, a
  (columns, table, filter column) tuple, or an exception instance or class that marks
  the variant as unsupported.
\<close>

datatype pyquery =
    Stmt sql
  | Stmt_table sql string
  | Columns_table_filter "string list" string string
  | Exc exn

text \<open>
  What \<open>query_property\<close> reads of an instance: \<open>keep_history\<close>, its \<open>*_queries\<close>
  attributes by name (\<open>getattr\<close>; \<open>None\<close> when the attribute is missing) and
  \<open>runner.script_vars\<close>, here the formatting \<open>query % script_vars\<close> they give.
\<close>

record py_instance =
  keep_history :: bool
  queries_attr :: "string \<Rightarrow> pyquery list option"
  script_vars_format :: "sql \<Rightarrow> exn + sql"

text \<open>\<open>queries[i]\<close> for \<open>i\<close> 0 or 1.\<close>

definition getitem :: "'a list \<Rightarrow> nat \<Rightarrow> exn + 'a" where
  "getitem xs i = (if i < length xs then Inr (xs ! i) else Inl IndexError)"

text \<open>\<open>query + extension\<close>: defined on text, a \<open>TypeError\<close> on a tuple.\<close>

fun add_extension :: "pyquery \<Rightarrow> string \<Rightarrow> exn + pyquery" where
  "add_extension (Stmt q) ext = Inr (Stmt (Append q ext))"
| "add_extension q ext = Inl (TypeError ''can only concatenate tuple (not \"str\") to tuple'')"

fun format_query :: "'a py_instance_scheme \<Rightarrow> pyquery \<Rightarrow> exn + pyquery" where
  "format_query inst (Stmt q) =
     (case script_vars_format inst q of Inl e \<Rightarrow> Inl e | Inr q' \<Rightarrow> Inr (Stmt q'))"
| "format_query inst q = Inl (TypeError ''unsupported operand type(s) for %'')"

text \<open>
  \<open>prop_func\<close> is \<open>prop\<close>, the function \<open>query_property(base_name, extension, formatted)\<close> wraps: the
  first member when history is kept, the second otherwise; an exception member is raised
  instead of returned. (\<open>Lazy\<close> caches the value it returns per instance; a raise caches
  nothing. The function reads only fixed attributes, so the cache is not modelled.)
\<close>

definition prop_func :: "string \<Rightarrow> string \<Rightarrow> bool \<Rightarrow> 'a py_instance_scheme \<Rightarrow> exn + pyquery" where
  "prop_func base_name extension formatted inst =
     (case queries_attr inst (base_name @ ''_queries'') of
        None \<Rightarrow> Inl (AttributeError (base_name @ ''_queries''))
      | Some queries \<Rightarrow>
          (case getitem queries (if keep_history inst then 0 else 1) of
             Inl e \<Rightarrow> Inl e
           | Inr (Exc e) \<Rightarrow> Inl e
           | Inr query \<Rightarrow>
               (case (if extension \<noteq> [] then add_extension query extension else Inr query) of
                  Inl e \<Rightarrow> Inl e
                | Inr query' \<Rightarrow>
                    if formatted then format_query inst query' else Inr query')))"

definition query_property :: "string \<Rightarrow> 'a py_instance_scheme \<Rightarrow> exn + pyquery" where
  "query_property base_name = prop_func base_name [] False"

text \<open>
  \<open>PostgreSQLObjectMover._move_from_temp_hf_insert_queries\<close>: unsupported when history
  is kept; \<open>EXECUTE move_from_temp(%s)\<close> otherwise.
\<close>

definition move_from_temp_hf_insert_queries :: "pyquery list" where
  "move_from_temp_hf_insert_queries =
     [Exc (Unsupported ''States accumulate in history-preserving mode''),
      Stmt (Execute_prepared ''move_from_temp'')]"

section \<open>The database and the cursor\<close>

text \<open>
  The tables the pipeline touches, as lists of rows in storage order (which no statement
  may rely on). Object and transaction ids are Python integers (\<open>BIGINT\<close> columns), states
  are byte strings, \<open>None\<close> for SQL \<open>NULL\<close>. \<open>object_state\<close> has no \<open>prev_tid\<close> and
  \<open>md5\<close> column in a history-free schema, where those two fields are never read;
  \<open>current_object\<close> exists only in a history-preserving one. \<open>large_objects\<close> are the
  PostgreSQL large objects a \<open>blob_chunk.chunk\<close> names.
\<close>

type_synonym bytes = string

record temp_store_row =
  ts_zoid :: int
  ts_prev_tid :: int
  ts_md5 :: "string option"
  ts_state :: "bytes option"

record current_object_row =
  co_zoid :: int
  co_tid :: int

record object_state_row =
  os_zoid :: int
  os_tid :: int
  os_prev_tid :: int
  os_md5 :: "string option"
  os_state_size :: int
  os_state :: "bytes option"

record blob_chunk_row =
  bc_zoid :: int
  bc_tid :: int
  bc_chunk_num :: int
  bc_chunk :: int

record database =
  temp_store :: "temp_store_row list"
  current_object :: "current_object_row list"
  object_state :: "object_state_row list"
  blob_chunk :: "blob_chunk_row list"
  commit_row_lock :: "int list"
  large_objects :: "(int \<times> bytes) list"

text \<open>The (zoid, tid) columns of the table that holds the current revisions.\<close>

definition table_zoid_tid :: "database \<Rightarrow> string \<Rightarrow> (int \<times> int) list option" where
  "table_zoid_tid d t =
     (if t = ''current_object'' then Some (map (\<lambda>r. (co_zoid r, co_tid r)) (current_object d))
      else if t = ''object_state'' then Some (map (\<lambda>r. (os_zoid r, os_tid r)) (object_state d))
      else None)"

definition no_such_table :: "string \<Rightarrow> exn" where
  "no_such_table t = DatabaseError ''ProgrammingError'' (''no such table: '' @ t)"

definition first_col :: "int list \<Rightarrow> int" where
  "first_col r = (case r of [] \<Rightarrow> 0 | x # _ \<Rightarrow> x)"

text \<open>
  Modelled from the spec: the rows of the statement the row batcher issues
  (\<open>relstorage.adapters.batch\<close> is not among the sources), \<open>Select_in\<close> on the key
  \<open>zoid\<close>. Section 6 gives the batcher's select as
  \<open>selectFrom(columns, table, filters) -> sequenceOf(row)\<close>, and section 4.4 has the
  sorted ids locked "in that exact order": the statement looks each value up by the primary
  key, in the order the values are given, and returns the row where there is one.
\<close>

definition select_in_rows :: "(int \<times> int) list \<Rightarrow> int list \<Rightarrow> int list list" where
  "select_in_rows cur vals = map (\<lambda>v. [v]) (filter (\<lambda>v. v \<in> set (map fst cur)) vals)"

text \<open>
  What a \<open>SELECT\<close> returns, rows as lists of column values. \<open>ORDER BY zoid\<close> sorts on the
  first column, which is \<open>zoid\<close> in every statement it is applied to.
\<close>

fun select_rows :: "database \<Rightarrow> sql \<Rightarrow> int list \<Rightarrow> exn + int list list" where
  "select_rows d (Detect_conflict t) params =
     (case table_zoid_tid d t of
        None \<Rightarrow> Inl (no_such_table t)
      | Some cur \<Rightarrow>
          Inr (sort_key first_col
                 (concat (map (\<lambda>s. map (\<lambda>c. [ts_zoid s, snd c, ts_prev_tid s])
                                        (filter (\<lambda>c. fst c = ts_zoid s \<and> ts_prev_tid s \<noteq> snd c) cur))
                              (temp_store d)))))"
| "select_rows d (Get_current_objects t) params =
     (case table_zoid_tid d t of
        None \<Rightarrow> Inl (no_such_table t)
      | Some cur \<Rightarrow>
          Inr (map (\<lambda>c. [fst c])
                 (filter (\<lambda>c. fst c \<in> set (map ts_zoid (temp_store d))) cur)))"
| "select_rows d (Order_by_zoid q lock) params =
     (case select_rows d q params of
        Inl e \<Rightarrow> Inl e
      | Inr rows \<Rightarrow> Inr (sort_key first_col rows))"
| "select_rows d Commit_lock params = Inr (map (\<lambda>t. [t]) (commit_row_lock d))"
| "select_rows d (Append q ext) params =
     (if ext = '' NOWAIT'' then select_rows d q params
      else Inl (DatabaseError ''ProgrammingError'' ''syntax error''))"
| "select_rows d (Select_in columns t column vals suffix) params =
     (case table_zoid_tid d t of
        None \<Rightarrow> Inl (no_such_table t)
      | Some cur \<Rightarrow>
          if columns = [''zoid''] \<and> column = ''zoid''
          then Inr (select_in_rows cur vals)
          else Inl (DatabaseError ''ProgrammingError'' ''no such column''))"
| "select_rows d Select_blob_chunk params =
     (case params of
        [oid, tid] \<Rightarrow>
          Inr (map (\<lambda>r. [bc_chunk r])
                 (sort_key bc_chunk_num
                    (filter (\<lambda>r. bc_zoid r = oid \<and> bc_tid r = tid) (blob_chunk d))))
      | _ \<Rightarrow> Inl (DatabaseError ''ProgrammingError'' ''wrong number of parameters''))"
| "select_rows d Update_current_insert params = Inr []"
| "select_rows d Update_current_update params = Inr []"
| "select_rows d (Execute_prepared n) params =
     Inl (DatabaseError ''OperationalError'' (''prepared statement does not exist: '' @ n))"

text \<open>
  The table whose returned rows a statement locks: the statement carries a lock clause
  (\<open>FOR UPDATE\<close>, or whatever the locker's \<open>_lock_current_clause\<close> is), that is, a clause
  or suffix that is not blank.
\<close>

definition blank :: "string \<Rightarrow> bool" where
  "blank s = (filter (\<lambda>c. c \<noteq> CHR '' '') s = [])"

fun lock_table :: "sql \<Rightarrow> string option" where
  "lock_table (Order_by_zoid (Get_current_objects t) lock) = (if blank lock then None else Some t)"
| "lock_table (Select_in columns t column vals suffix) = (if blank suffix then None else Some t)"
| "lock_table Commit_lock = Some ''commit_row_lock''"
| "lock_table (Append q ext) = lock_table q"
| "lock_table q = None"

text \<open>
  What the two \<open>update_current\<close> statements do to \<open>current_object\<close>. The insert fails on
  a zoid that is already there (\<open>zoid\<close> is the primary key).
\<close>

definition created_at :: "database \<Rightarrow> int \<Rightarrow> int list" where
  "created_at d tid =
     map os_zoid (filter (\<lambda>r. os_tid r = tid \<and> os_prev_tid r = 0) (object_state d))"

definition modified_at :: "database \<Rightarrow> int \<Rightarrow> int list" where
  "modified_at d tid =
     map os_zoid (filter (\<lambda>r. os_tid r = tid \<and> os_prev_tid r \<noteq> 0) (object_state d))"

fun apply_dml :: "database \<Rightarrow> sql \<Rightarrow> int list \<Rightarrow> exn + database" where
  "apply_dml d Update_current_insert params =
     (case params of
        [tid] \<Rightarrow>
          (if distinct (map co_zoid (current_object d) @ created_at d tid)
           then Inr (d\<lparr>current_object :=
                        current_object d
                        @ map (\<lambda>z. \<lparr>co_zoid = z, co_tid = tid\<rparr>) (created_at d tid)\<rparr>)
           else Inl (DatabaseError ''IntegrityError'' ''duplicate key in current_object''))
      | _ \<Rightarrow> Inl (DatabaseError ''ProgrammingError'' ''wrong number of parameters''))"
| "apply_dml d Update_current_update params =
     (case params of
        [new_tid, tid] \<Rightarrow>
          Inr (d\<lparr>current_object :=
                   map (\<lambda>c. if co_zoid c \<in> set (modified_at d tid)
                             then c\<lparr>co_tid := new_tid\<rparr> else c)
                       (current_object d)\<rparr>)
      | _ \<Rightarrow> Inl (DatabaseError ''ProgrammingError'' ''wrong number of parameters''))"
| "apply_dml d q params = Inr d"

text \<open>
  A DB-API cursor on a session: the database it sees, the statements executed so far
  (as the tests' \<open>MockCursor.executed\<close>), the rows of the last statement not yet fetched
  and the table they lock, and the row locks the session holds, in the order taken. A row
  is locked when it is fetched, not when its statement is executed. \<open>fails\<close> says which
  statements the backend refuses, and with what exception (contention, a lost connection,
  a statement it finds illegal).
\<close>

record cursor =
  db :: database
  fails :: "sql \<Rightarrow> exn option"
  executed :: "(sql \<times> int list) list"
  result_rows :: "int list list"
  result_lock :: "string option"
  row_locks :: "(string \<times> int) list"

definition execute :: "cursor \<Rightarrow> sql \<Rightarrow> int list \<Rightarrow> exn + cursor" where
  "execute cur stmt params =
     (case fails cur stmt of
        Some e \<Rightarrow> Inl e
      | None \<Rightarrow>
          (case select_rows (db cur) stmt params of
             Inl e \<Rightarrow> Inl e
           | Inr rows \<Rightarrow>
               (case apply_dml (db cur) stmt params of
                  Inl e \<Rightarrow> Inl e
                | Inr d \<Rightarrow>
                    Inr (cur\<lparr>db := d,
                             executed := executed cur @ [(stmt, params)],
                             result_rows := rows,
                             result_lock := lock_table stmt\<rparr>))))"

text \<open>\<open>cursor.fetchall()\<close>, and iterating the cursor to its end (\<open>consume(cursor)\<close>).\<close>

definition fetchall :: "cursor \<Rightarrow> int list list \<times> cursor" where
  "fetchall cur =
     (result_rows cur,
      cur\<lparr>result_rows := [],
          row_locks := row_locks cur @
            (case result_lock cur of
               None \<Rightarrow> []
             | Some t \<Rightarrow> map (\<lambda>r. (t, first_col r)) (result_rows cur))\<rparr>)"

section \<open>The row batcher\<close>

text \<open>\<open>itertools.islice(filter_values, row_limit)\<close>, until nothing is left.\<close>

function chunks :: "nat \<Rightarrow> 'a list \<Rightarrow> 'a list list" where
  "chunks n xs = (if n = 0 \<or> xs = [] then [] else take n xs # chunks n (drop n xs))"
  by pat_completeness auto
termination
  by (relation "measure (\<lambda>(n, xs). length xs)") auto

declare chunks.simps [simp del]

text \<open>
  Modelled from the spec: \<open>RowBatcher.select_from\<close> (\<open>relstorage.adapters.batch\<close> is not
  among the sources). Section 6: "it always goes through this batching interface with a
  row-count ceiling per batch". The filter values are taken \<open>row_limit\<close> at a time, in the
  order given; one \<open>Select_in\<close> statement is executed per batch and its rows are fetched.
  The rows come from a generator in the source; \<open>lock_current_objects\<close> runs it to its
  end with \<open>consume\<close>, so the model runs all the batches.
\<close>

fun select_batches ::
  "cursor \<Rightarrow> string list \<Rightarrow> string \<Rightarrow> string \<Rightarrow> string \<Rightarrow> int list list
     \<Rightarrow> exn + (int list list \<times> cursor)" where
  "select_batches cur columns t suffix column [] = Inr ([], cur)"
| "select_batches cur columns t suffix column (b # bs) =
     (case execute cur (Select_in columns t column b suffix) [] of
        Inl e \<Rightarrow> Inl e
      | Inr c1 \<Rightarrow>
          (case select_batches (snd (fetchall c1)) columns t suffix column bs of
             Inl e \<Rightarrow> Inl e
           | Inr (rows, c2) \<Rightarrow> Inr (fst (fetchall c1) @ rows, c2)))"

definition select_from ::
  "cursor \<Rightarrow> nat \<Rightarrow> string list \<Rightarrow> string \<Rightarrow> string \<Rightarrow> string \<Rightarrow> int list
     \<Rightarrow> exn + (int list list \<times> cursor)" where
  "select_from cur row_limit columns t suffix column vals =
     select_batches cur columns t suffix column (chunks row_limit vals)"

section \<open>The locker (\<open>locker.py\<close>)\<close>

text \<open>
  An \<open>AbstractLocker\<close>: the instance attributes \<open>__init__\<close> sets from the options and the
  driver (the two exception categories are tuples of classes in the source, tested with
  \<open>except\<close>; here the test itself), and the class attributes a subclass may override.
\<close>

record locker = py_instance +
  lock_exceptions :: "exn \<Rightarrow> bool"
  illegal_operation_exceptions :: "exn \<Rightarrow> bool"
  supports_row_lock_nowait :: bool
  lock_current_clause :: string
  get_commit_lock_debug_info :: "cursor \<Rightarrow> exn + string"

definition AbstractLocker_queries :: "string \<Rightarrow> pyquery list option" where
  "AbstractLocker_queries n =
     (if n = ''_get_current_objects_queries''
      then Some [Stmt_table (Get_current_objects ''current_object'') ''current_object'',
                 Stmt_table (Get_current_objects ''object_state'') ''object_state'']
      else if n = ''_commit_lock_queries''
      then Some [Stmt Commit_lock, Stmt Commit_lock]
      else if n = ''_commit_lock_nowait_queries''
      then Some [Stmt (Append Commit_lock '' NOWAIT''), Stmt (Append Commit_lock '' NOWAIT'')]
      else None)"

text \<open>
  \<open>AbstractLocker(options, driver, batcher_factory)\<close> with the class's own attributes:
  \<open>_supports_row_lock_nowait = True\<close>, \<open>_lock_current_clause = 'FOR UPDATE'\<close>, and
  \<open>_get_commit_lock_debug_info\<close> returning the empty string.
\<close>

definition AbstractLocker :: "bool \<Rightarrow> (exn \<Rightarrow> bool) \<Rightarrow> (exn \<Rightarrow> bool) \<Rightarrow> locker" where
  "AbstractLocker options_keep_history driver_lock_exceptions driver_illegal_operation_exceptions =
     \<lparr>keep_history = options_keep_history,
      queries_attr = AbstractLocker_queries,
      script_vars_format = Inr,
      lock_exceptions = driver_lock_exceptions,
      illegal_operation_exceptions = driver_illegal_operation_exceptions,
      supports_row_lock_nowait = True,
      lock_current_clause = ''FOR UPDATE'',
      get_commit_lock_debug_info = (\<lambda>cur. Inr [])\<rparr>"

text \<open>
  \<open>_lock_current_objects_query\<close>: \<open>'{select} ORDER BY ZOID {lock}'\<close> formatted with the
  statement of the (statement, table) tuple. The class defines the variant as such a tuple;
  any other shape is an error here.
\<close>

definition lock_current_objects_query :: "locker \<Rightarrow> exn + sql" where
  "lock_current_objects_query self =
     (case query_property ''_get_current_objects'' self of
        Inl e \<Rightarrow> Inl e
      | Inr (Stmt_table select t) \<Rightarrow> Inr (Order_by_zoid select (lock_current_clause self))
      | Inr q \<Rightarrow> Inl (TypeError ''not a (statement, table) tuple''))"

text \<open>The branch of \<open>lock_current_objects\<close> taken when \<open>current_oids\<close> is not empty.\<close>

definition lock_current_objects_union :: "locker \<Rightarrow> cursor \<Rightarrow> int list \<Rightarrow> exn + cursor" where
  "lock_current_objects_union self cur current_oids =
     (case query_property ''_get_current_objects'' self of
        Inl e \<Rightarrow> Inl e
      | Inr (Stmt_table stmt t) \<Rightarrow>
          (case execute cur stmt [] of
             Inl e \<Rightarrow> Inl e
           | Inr c1 \<Rightarrow>
               (let oids_being_updated = map first_col (fst (fetchall c1));
                    oids_to_lock = sort (remdups (oids_being_updated @ current_oids))
                in case select_from (snd (fetchall c1)) 1000 [''zoid''] t
                          (''  '' @ lock_current_clause self @ '' '') ''zoid'' oids_to_lock of
                     Inl e \<Rightarrow> Inl e
                   | Inr (rows, c2) \<Rightarrow> Inr c2))
      | Inr q \<Rightarrow> Inl (TypeError ''not a (statement, table) tuple''))"

text \<open>The branch taken when \<open>current_oids\<close> is empty: one ordered, locking statement.\<close>

definition lock_current_objects_ordered :: "locker \<Rightarrow> cursor \<Rightarrow> exn + cursor" where
  "lock_current_objects_ordered self cur =
     (case lock_current_objects_query self of
        Inl e \<Rightarrow> Inl e
      | Inr stmt \<Rightarrow>
          (case execute cur stmt [] of
             Inl e \<Rightarrow> Inl e
           | Inr c1 \<Rightarrow> Inr (snd (fetchall c1))))"

definition lock_current_objects :: "locker \<Rightarrow> cursor \<Rightarrow> int list \<Rightarrow> exn + cursor" where
  "lock_current_objects self cur current_oids =
     (if current_oids \<noteq> [] then lock_current_objects_union self cur current_oids
      else lock_current_objects_ordered self cur)"

text \<open>
  \<open>hold_commit_lock\<close>. \<open>_set_row_lock_nowait\<close> calls \<open>_set_row_lock_timeout(cursor, 0)\<close>,
  which does nothing in this class. The statement and the test of its rows run inside the
  \<open>try\<close>, so the error raised for a missing row meets the same two \<open>except\<close> clauses as
  an exception of the backend: the illegal-operation clause first, the lock clause second.
  \<open>ensure_current\<close> is not used. Logging is left out.

  An exception leaves \<open>hold_commit_lock\<close> together with the cursor as it is then, so that
  what the call has executed before raising can be read: \<open>attempted\<close> is the cursor
  after a statement the backend refused, which is in the list of executed statements
  (\<open>MockCursor.execute\<close> appends before anything else) and has changed nothing more.
\<close>

definition attempted :: "cursor \<Rightarrow> sql \<Rightarrow> int list \<Rightarrow> cursor" where
  "attempted cur stmt params = cur\<lparr>executed := executed cur @ [(stmt, params)]\<rparr>"

definition set_row_lock_timeout :: "locker \<Rightarrow> cursor \<Rightarrow> int \<Rightarrow> cursor" where
  "set_row_lock_timeout self cur timeout = cur"

definition set_row_lock_nowait :: "locker \<Rightarrow> cursor \<Rightarrow> cursor" where
  "set_row_lock_nowait self cur = set_row_lock_timeout self cur 0"

definition no_row_message :: string where
  "no_row_message = ''No row returned from commit_row_lock''"

text \<open>
  \<open>"%r" % e\<close>: the class and the arguments, none for the two exceptions raised without
  one. Then \<open>"%r(%r)" % (type(nested), nested)\<close>.
\<close>

fun repr_exn :: "exn \<Rightarrow> string" where
  "repr_exn AssertionError = ''AssertionError()''"
| "repr_exn IndexError = ''IndexError()''"
| "repr_exn e = class_name e @ ''('' @ [CHR 0x27] @ str_exn e @ [CHR 0x27] @ '')''"

definition repr_nested :: "exn \<Rightarrow> string" where
  "repr_nested nested =
     ''<class '' @ [CHR 0x27] @ class_name nested @ [CHR 0x27] @ ''>('' @ repr_exn nested @ '')''"

definition lock_failed_message :: "exn \<Rightarrow> string \<Rightarrow> string" where
  "lock_failed_message e debug_info =
     ''Acquiring a commit lock failed: '' @ str_exn e
       @ (if debug_info \<noteq> [] then [CHR 0x0A] @ debug_info else [])"

definition commit_lock_stmt :: "locker \<Rightarrow> bool \<Rightarrow> exn + pyquery" where
  "commit_lock_stmt self nowait =
     (case query_property ''_commit_lock'' self of
        Inl e \<Rightarrow> Inl e
      | Inr lock_stmt \<Rightarrow>
          if nowait \<and> supports_row_lock_nowait self
          then query_property ''_commit_lock_nowait'' self
          else Inr lock_stmt)"

definition hold_commit_lock_try :: "cursor \<Rightarrow> pyquery \<Rightarrow> (exn \<times> cursor) + cursor" where
  "hold_commit_lock_try cur lock_stmt =
     (case lock_stmt of
        Stmt q \<Rightarrow>
          (case execute cur q [] of
             Inl e \<Rightarrow> Inl (e, attempted cur q [])
           | Inr c1 \<Rightarrow>
               (let rows = fst (fetchall c1) in
                if rows = [] \<or> hd rows = []
                then Inl (UnableToAcquireCommitLockError no_row_message, snd (fetchall c1))
                else Inr (snd (fetchall c1))))
      | q \<Rightarrow> Inl (TypeError ''the statement is not text'', cur))"

definition hold_commit_lock ::
  "locker \<Rightarrow> cursor \<Rightarrow> bool \<Rightarrow> bool \<Rightarrow> (exn \<times> cursor) + (bool \<times> cursor)" where
  "hold_commit_lock self cursor0 ensure_current nowait =
     (case commit_lock_stmt self nowait of
        Inl e \<Rightarrow> Inl (e, cursor0)
      | Inr lock_stmt \<Rightarrow>
          (let cur = (if nowait \<and> \<not> supports_row_lock_nowait self
                      then set_row_lock_nowait self cursor0 else cursor0)
           in case hold_commit_lock_try cur lock_stmt of
                Inr c \<Rightarrow> Inr (True, c)
              | Inl (e, c) \<Rightarrow>
                  if illegal_operation_exceptions self e then Inl (e, c)
                  else if lock_exceptions self e then
                    (if nowait then Inr (False, c)
                     else
                       (let debug_info =
                              (case get_commit_lock_debug_info self c of
                                 Inr info \<Rightarrow> info
                               | Inl nested \<Rightarrow> repr_nested nested)
                        in Inl (UnableToAcquireCommitLockError (lock_failed_message e debug_info),
                                c)))
                  else Inl (e, c)))"

section \<open>The mover (\<open>mover.py\<close>, \<open>postgresql/mover.py\<close>)\<close>

text \<open>
  \<open>noop_when_history_free(meth)\<close>. The decorated method is first the \<open>swizzler\<close>, which
  stores in the instance either \<open>no_op\<close> (history-free) or the method bound to the
  instance, and then calls what it stored; later calls go to what was stored. \<open>slot\<close> is
  what the instance holds under the method's name. A method takes the state it works on and
  its arguments; \<open>no_op\<close> returns \<open>None\<close> and touches nothing.
\<close>

datatype slot = Swizzler | No_op | Bound

definition noop_when_history_free ::
  "('s \<Rightarrow> 'x \<Rightarrow> exn + ('r option \<times> 's)) \<Rightarrow> bool \<Rightarrow> slot \<Rightarrow> 's \<Rightarrow> 'x
     \<Rightarrow> slot \<times> (exn + ('r option \<times> 's))" where
  "noop_when_history_free meth self_keep_history attr st args =
     (case attr of
        Swizzler \<Rightarrow>
          if \<not> self_keep_history then (No_op, Inr (None, st)) else (Bound, meth st args)
      | No_op \<Rightarrow> (No_op, Inr (None, st))
      | Bound \<Rightarrow> (Bound, meth st args))"

text \<open>
  Values handed to the row batcher; \<open>Binary v\<close> is \<open>driver.Binary(v)\<close>, which wraps
  its argument, whatever it is.
\<close>

datatype pyval =
    PyNone
  | PyInt int
  | PyStr string
  | PyBytes bytes
  | PyTuple "pyval list"
  | Binary pyval

text \<open>
  The row batcher is not among the sources. The mover's calls on it are recorded in order:
  \<open>delete_from(table, **filters)\<close> and
  \<open>insert_into(header, row_schema, row, rowkey, size, command, suffix)\<close>.
\<close>

datatype batch_op =
    Delete_from string "(string \<times> pyval) list"
  | Insert_into string string "pyval list" pyval int string string

record mover = py_instance +
  md5_hexdigest :: "bytes \<Rightarrow> string"
  compute_md5sum_attr :: slot
  update_current_attr :: slot
  update_current_insert_query :: sql
  update_current_update_query :: "sql option"

definition AbstractObjectMover_queries :: "string \<Rightarrow> pyquery list option" where
  "AbstractObjectMover_queries n =
     (if n = ''_detect_conflict_queries''
      then Some [Stmt (Detect_conflict ''current_object''), Stmt (Detect_conflict ''object_state'')]
      else None)"

text \<open>
  \<open>AbstractObjectMover(database_driver, options)\<close>, with the class's own two
  \<open>update_current\<close> statements. \<open>hexdigest\<close> stands for \<open>md5(data).hexdigest()\<close>.
\<close>

definition AbstractObjectMover :: "bool \<Rightarrow> (bytes \<Rightarrow> string) \<Rightarrow> mover" where
  "AbstractObjectMover options_keep_history hexdigest =
     \<lparr>keep_history = options_keep_history,
      queries_attr = AbstractObjectMover_queries,
      script_vars_format = Inr,
      md5_hexdigest = hexdigest,
      compute_md5sum_attr = Swizzler,
      update_current_attr = Swizzler,
      update_current_insert_query = Update_current_insert,
      update_current_update_query = Some Update_current_update\<rparr>"

text \<open>
  \<open>_compute_md5sum\<close>, decorated: \<open>None\<close> when history-free; the digest of the data
  otherwise, \<open>None\<close> for no data. The method has no state to work on.
\<close>

definition compute_md5sum_meth :: "mover \<Rightarrow> unit \<Rightarrow> bytes option \<Rightarrow> exn + (string option \<times> unit)" where
  "compute_md5sum_meth self st data =
     (case data of
        None \<Rightarrow> Inr (None, st)
      | Some d \<Rightarrow> Inr (Some (md5_hexdigest self d), st))"

definition compute_md5sum :: "mover \<Rightarrow> bytes option \<Rightarrow> mover \<times> string option" where
  "compute_md5sum self data =
     (case noop_when_history_free (compute_md5sum_meth self) (keep_history self)
             (compute_md5sum_attr self) () data of
        (attr, Inr (md5sum, st)) \<Rightarrow> (self\<lparr>compute_md5sum_attr := attr\<rparr>, md5sum)
      | (attr, Inl e) \<Rightarrow> (self\<lparr>compute_md5sum_attr := attr\<rparr>, None))"

definition opt_str :: "string option \<Rightarrow> pyval" where
  "opt_str v = (case v of None \<Rightarrow> PyNone | Some s \<Rightarrow> PyStr s)"

text \<open>
  \<open>_generic_store_temp\<close>. \<open>len(data)\<close> is a \<open>TypeError\<close> when \<open>data\<close> is \<open>None\<close>; by
  then the delete, if any, has been handed to the batcher, which is returned with the
  error. The result holds the instance too, whose \<open>_compute_md5sum\<close> slot the call sets.
\<close>

definition generic_store_temp ::
  "mover \<Rightarrow> batch_op list \<Rightarrow> int \<Rightarrow> int \<Rightarrow> bytes option \<Rightarrow> string \<Rightarrow> string
     \<Rightarrow> mover \<times> ((exn \<times> batch_op list) + batch_op list)" where
  "generic_store_temp self batcher oid prev_tid data command suffix =
     (let (self', md5sum) = compute_md5sum self data;
          batcher1 = (if command = ''INSERT'' \<and> suffix = []
                      then batcher @ [Delete_from ''temp_store'' [(''zoid'', PyInt oid)]]
                      else batcher)
      in case data of
           None \<Rightarrow>
             (self', Inl (TypeError (''object of type '' @ [CHR 0x27] @ ''NoneType'' @ [CHR 0x27] @ '' has no len()''),
                         batcher1))
         | Some d \<Rightarrow>
             (self', Inr (batcher1 @
                [Insert_into ''temp_store (zoid, prev_tid, md5, state)'' ''%s, %s, %s, %s''
                   [PyInt oid, PyInt prev_tid, opt_str md5sum, Binary (PyBytes d)]
                   (PyInt oid) (int (length d)) command suffix])))"

text \<open>
  \<open>_generic_restore\<close>; \<open>elif data\<close> is true of data that is neither \<open>None\<close> nor empty.
  The row schema of the history-preserving insert is given without its line breaks.
\<close>

definition generic_restore ::
  "mover \<Rightarrow> batch_op list \<Rightarrow> int \<Rightarrow> int \<Rightarrow> bytes option \<Rightarrow> string \<Rightarrow> string
     \<Rightarrow> mover \<times> batch_op list" where
  "generic_restore self batcher oid tid data command suffix =
     (let (self', md5sum) = compute_md5sum self data;
          encoded = (case data of Some d \<Rightarrow> Binary (PyBytes d) | None \<Rightarrow> PyNone);
          size = (case data of Some d \<Rightarrow> int (length d) | None \<Rightarrow> 0)
      in if keep_history self then
           (self',
            (if command = ''INSERT'' \<and> suffix = []
             then batcher @ [Delete_from ''object_state'' [(''zoid'', PyInt oid), (''tid'', PyInt tid)]]
             else batcher)
            @ [Insert_into ''object_state (zoid, tid, prev_tid, md5, state_size, state)''
                 ''%s, %s, COALESCE((SELECT tid FROM current_object WHERE zoid = %s), 0), %s, %s, %s''
                 [PyInt oid, PyInt tid, PyInt oid, opt_str md5sum, PyInt size, encoded]
                 (PyTuple [PyInt oid, PyInt tid]) size command suffix])
         else if data \<noteq> None \<and> data \<noteq> Some [] then
           (self',
            (if command = ''INSERT'' \<and> suffix = []
             then batcher @ [Delete_from ''object_state'' [(''zoid'', PyInt oid)]]
             else batcher)
            @ [Insert_into ''object_state (zoid, tid, state_size, state)'' ''%s, %s, %s, %s''
                 [PyInt oid, PyInt tid, PyInt size, encoded]
                 (PyInt oid) size command suffix])
         else (self', batcher @ [Delete_from ''object_state'' [(''zoid'', PyInt oid)]]))"

text \<open>
  \<open>detect_conflict\<close>: the statement of the mode, executed, and all its rows.
\<close>

definition detect_conflict :: "mover \<Rightarrow> cursor \<Rightarrow> exn + (int list list \<times> cursor)" where
  "detect_conflict self cur =
     (case query_property ''_detect_conflict'' self of
        Inl e \<Rightarrow> Inl e
      | Inr (Stmt stmt) \<Rightarrow>
          (case execute cur stmt [] of
             Inl e \<Rightarrow> Inl e
           | Inr c1 \<Rightarrow> Inr (fetchall c1))
      | Inr q \<Rightarrow> Inl (TypeError ''the statement is not text''))"

text \<open>
  \<open>update_current\<close>: the method itself, then as decorated. A false
  \<open>_update_current_update_query\<close> (\<open>None\<close>) skips the second statement.
\<close>

definition update_current_meth :: "mover \<Rightarrow> cursor \<Rightarrow> int \<Rightarrow> exn + (unit option \<times> cursor)" where
  "update_current_meth self cur tid =
     (case execute cur (update_current_insert_query self) [tid] of
        Inl e \<Rightarrow> Inl e
      | Inr c1 \<Rightarrow>
          (case update_current_update_query self of
             None \<Rightarrow> Inr (None, c1)
           | Some stmt \<Rightarrow>
               (case execute c1 stmt [tid, tid] of
                  Inl e \<Rightarrow> Inl e
                | Inr c2 \<Rightarrow> Inr (None, c2))))"

definition update_current :: "mover \<Rightarrow> cursor \<Rightarrow> int \<Rightarrow> mover \<times> (exn + (unit option \<times> cursor))" where
  "update_current self cur tid =
     (case noop_when_history_free (update_current_meth self) (keep_history self)
             (update_current_attr self) cur tid of
        (attr, r) \<Rightarrow> (self\<lparr>update_current_attr := attr\<rparr>, r))"

text \<open>
  The file system \<open>download_blob\<close> writes to: the contents of the files that exist, and
  the names that cannot be written.
\<close>

record filesystem =
  contents :: "string \<Rightarrow> bytes option"
  unwritable :: "string \<Rightarrow> bool"

text \<open>
  \<open>PostgreSQLObjectMover.download_blob\<close>: the chunk rows of the key; the assertion that
  there is exactly one; the first row and the large object it names, exported to the file;
  the size of the file. \<open>optimize\<close> says that the interpreter runs without assertions
  (\<open>python -O\<close>): the \<open>assert\<close> is then skipped, \<open>rows[0]\<close> is an \<open>IndexError\<close> when
  there is no row, and the first of several rows is taken. Opening a large object that does
  not exist and exporting to a file that cannot be written fail with the driver's and the
  system's errors.
\<close>

definition download_blob ::
  "mover \<Rightarrow> cursor \<Rightarrow> filesystem \<Rightarrow> bool \<Rightarrow> int \<Rightarrow> int \<Rightarrow> string
     \<Rightarrow> exn + (int \<times> cursor \<times> filesystem)" where
  "download_blob self cur fs optimize oid tid filename =
     (case execute cur Select_blob_chunk [oid, tid] of
        Inl e \<Rightarrow> Inl e
      | Inr c1 \<Rightarrow>
          (let rows = fst (fetchall c1) in
           if \<not> optimize \<and> length rows \<noteq> 1 then Inl AssertionError
           else
             (case rows of
                [] \<Rightarrow> Inl IndexError
              | row # others \<Rightarrow>
                  (case row of
                     [loid] \<Rightarrow>
                       (case map_of (large_objects (db c1)) loid of
                          None \<Rightarrow>
                            Inl (DatabaseError ''OperationalError'' ''large object does not exist'')
                        | Some blob \<Rightarrow>
                            if unwritable fs filename then Inl (IOError filename)
                            else Inr (int (length blob), snd (fetchall c1),
                                      fs\<lparr>contents := (contents fs)(filename \<mapsto> blob)\<rparr>))
                   | r \<Rightarrow> Inl (ValueError ''cannot unpack the row'')))))"

text \<open>
  The not-found error of the blob layer: \<open>S3BlobHelper.loadBlob\<close> and
  \<open>openCommittedBlobFile\<close> raise it (\<open>POSKeyError("No blob file", oid, serial)\<close>) when
  \<open>download_blob\<close> has returned and the file is not there.
\<close>

fun not_found_error :: "exn \<Rightarrow> bool" where
  "not_found_error (POSKeyError m) = True"
| "not_found_error e = False"

fun io_error :: "exn \<Rightarrow> bool" where
  "io_error (IOError m) = True"
| "io_error e = False"

section \<open>Vocabulary of the statements proved\<close>

text \<open>
  The table of current revisions in each mode, its (zoid, tid) rows, the zoids staged in
  \<open>temp_store\<close>, and the row locks a call has added to those the session held.
\<close>

definition current_table :: "bool \<Rightarrow> string" where
  "current_table kh = (if kh then ''current_object'' else ''object_state'')"

definition current_rows :: "bool \<Rightarrow> database \<Rightarrow> (int \<times> int) list" where
  "current_rows kh d =
     (if kh then map (\<lambda>r. (co_zoid r, co_tid r)) (current_object d)
      else map (\<lambda>r. (os_zoid r, os_tid r)) (object_state d))"

definition staged_zoids :: "database \<Rightarrow> int list" where
  "staged_zoids d = map ts_zoid (temp_store d)"

definition locks_taken :: "cursor \<Rightarrow> cursor \<Rightarrow> (string \<times> int) list" where
  "locks_taken before after = drop (length (row_locks before)) (row_locks after)"

text \<open>
  The ids \<open>lock_current_objects\<close> is to lock: the staged objects that have a current row,
  and the ids the caller passes.
\<close>

definition lock_targets :: "bool \<Rightarrow> database \<Rightarrow> int list \<Rightarrow> int set" where
  "lock_targets kh d current_oids =
     (fst ` set (current_rows kh d) \<inter> set (staged_zoids d)) \<union> set current_oids"

text \<open>Example data: three staged objects, three current rows, the lock row.\<close>

definition ex_db :: database where
  "ex_db = \<lparr>temp_store = [\<lparr>ts_zoid = 9, ts_prev_tid = 5, ts_md5 = None, ts_state = Some ''A''\<rparr>,
                          \<lparr>ts_zoid = 3, ts_prev_tid = 2, ts_md5 = None, ts_state = Some ''B''\<rparr>,
                          \<lparr>ts_zoid = 4, ts_prev_tid = 0, ts_md5 = None, ts_state = Some ''C''\<rparr>],
            current_object = [\<lparr>co_zoid = 9, co_tid = 3\<rparr>, \<lparr>co_zoid = 3, co_tid = 2\<rparr>,
                              \<lparr>co_zoid = 7, co_tid = 1\<rparr>],
            object_state = [], blob_chunk = [], commit_row_lock = [0], large_objects = []\<rparr>"

definition ex_cursor :: "database \<Rightarrow> cursor" where
  "ex_cursor d = \<lparr>db = d, fails = (\<lambda>q. None), executed = [], result_rows = [],
                  result_lock = None, row_locks = []\<rparr>"

text \<open>The staged (zoid, expected predecessor tid) pairs.\<close>

definition staged :: "database \<Rightarrow> (int \<times> int) list" where
  "staged d = map (\<lambda>s. (ts_zoid s, ts_prev_tid s)) (temp_store d)"

text \<open>
  The statement \<open>hold_commit_lock\<close> executes when the two commit-lock pairs are the
  class's own.
\<close>

definition commit_lock_sql :: "locker \<Rightarrow> bool \<Rightarrow> sql" where
  "commit_lock_sql self nowait =
     (if nowait \<and> supports_row_lock_nowait self then Append Commit_lock '' NOWAIT'' else Commit_lock)"

text \<open>
  An example driver in the way of the DB-API: every \<open>DatabaseError\<close> counts as lock
  contention, and a \<open>ProgrammingError\<close>, which is a \<open>DatabaseError\<close>, as an illegal
  operation. And a cursor whose backend refuses every statement with one exception.
\<close>

definition dbapi_lock_exceptions :: "exn \<Rightarrow> bool" where
  "dbapi_lock_exceptions e = (case e of DatabaseError c m \<Rightarrow> True | _ \<Rightarrow> False)"

definition dbapi_illegal_operation_exceptions :: "exn \<Rightarrow> bool" where
  "dbapi_illegal_operation_exceptions e =
     (case e of DatabaseError c m \<Rightarrow> c = ''ProgrammingError'' | _ \<Rightarrow> False)"

definition failing_cursor :: "database \<Rightarrow> exn \<Rightarrow> cursor" where
  "failing_cursor d e = \<lparr>db = d, fails = (\<lambda>q. Some e), executed = [], result_rows = [],
                         result_lock = None, row_locks = []\<rparr>"

text \<open>
  Example data for \<open>update_current\<close>: transaction 10 has modified object 9 and created
  object 5.
\<close>

definition ex_db_committing :: database where
  "ex_db_committing =
     ex_db\<lparr>object_state :=
             [\<lparr>os_zoid = 9, os_tid = 10, os_prev_tid = 3, os_md5 = None, os_state_size = 1,
               os_state = Some ''A''\<rparr>,
              \<lparr>os_zoid = 5, os_tid = 10, os_prev_tid = 0, os_md5 = None, os_state_size = 1,
               os_state = Some ''D''\<rparr>,
              \<lparr>os_zoid = 7, os_tid = 1, os_prev_tid = 0, os_md5 = None, os_state_size = 1,
               os_state = Some ''E''\<rparr>]\<rparr>"

text \<open>
  \<open>current_object\<close> after the pointers of transaction \<open>tid\<close> are published: the rows of
  the objects it modified carry \<open>tid\<close>, the objects it created have a new row.
\<close>

definition republished :: "database \<Rightarrow> int \<Rightarrow> current_object_row list" where
  "republished d tid =
     map (\<lambda>r. if co_zoid r \<in> set (modified_at d tid) then r\<lparr>co_tid := tid\<rparr> else r)
         (current_object d)
     @ map (\<lambda>z. \<lparr>co_zoid = z, co_tid = tid\<rparr>) (created_at d tid)"

text \<open>
  The batcher after the delete that precedes a plain insert
  (\<open>if command == 'INSERT' and not suffix: batcher.delete_from(...)\<close>).
\<close>

definition before_insert :: "batch_op list \<Rightarrow> string \<Rightarrow> string \<Rightarrow> batch_op \<Rightarrow> batch_op list" where
  "before_insert batcher command suffix delete =
     (if command = ''INSERT'' \<and> suffix = [] then batcher @ [delete] else batcher)"

text \<open>
  Example data for \<open>download_blob\<close>: one chunk for object 4 at transaction 10, a large
  object of ten bytes, and an empty file system.
\<close>

definition ex_blob_db :: database where
  "ex_blob_db = ex_db\<lparr>blob_chunk := [\<lparr>bc_zoid = 4, bc_tid = 10, bc_chunk_num = 0, bc_chunk = 77\<rparr>],
                       large_objects := [(77, ''0123456789'')]\<rparr>"

definition ex_fs :: filesystem where
  "ex_fs = \<lparr>contents = (\<lambda>name. None), unwritable = (\<lambda>name. False)\<rparr>"

section \<open>Theorems\<close>

text \<open>
  C7. A variant pair selects by the mode flag alone: the first member when history is
  kept, the second otherwise. A member that is an exception (the marker of an unsupported
  variant) is raised when the selector is evaluated, instead of a query being returned;
  any other member is returned as it is.
\<close>

theorem query_property_selects_or_raises:
  assumes "queries_attr inst (base_name @ ''_queries'') = Some [hp, hf]"
  shows "query_property base_name inst =
           (case (if keep_history inst then hp else hf) of
              Exc e \<Rightarrow> Inl e
            | q \<Rightarrow> Inr q)"
  using assms
  by (simp add: query_property_def prop_func_def getitem_def split: pyquery.splits)

theorem query_property_selects_or_raises_witness:
  "query_property ''_move_from_temp_hf_insert''
       \<lparr>keep_history = True,
        queries_attr = (\<lambda>n. if n = ''_move_from_temp_hf_insert_queries''
                            then Some move_from_temp_hf_insert_queries else None),
        script_vars_format = Inr\<rparr>
     = Inl (Unsupported ''States accumulate in history-preserving mode'')
   \<and> query_property ''_move_from_temp_hf_insert''
       \<lparr>keep_history = False,
        queries_attr = (\<lambda>n. if n = ''_move_from_temp_hf_insert_queries''
                            then Some move_from_temp_hf_insert_queries else None),
        script_vars_format = Inr\<rparr>
     = Inr (Stmt (Execute_prepared ''move_from_temp''))"
  using query_property_selects_or_raises
    [of "\<lparr>keep_history = True,
        queries_attr = (\<lambda>n. if n = ''_move_from_temp_hf_insert_queries''
                            then Some move_from_temp_hf_insert_queries else None),
        script_vars_format = Inr\<rparr>" "''_move_from_temp_hf_insert''"
        "Exc (Unsupported ''States accumulate in history-preserving mode'')"
        "Stmt (Execute_prepared ''move_from_temp'')"]
    query_property_selects_or_raises
    [of "\<lparr>keep_history = False,
        queries_attr = (\<lambda>n. if n = ''_move_from_temp_hf_insert_queries''
                            then Some move_from_temp_hf_insert_queries else None),
        script_vars_format = Inr\<rparr>" "''_move_from_temp_hf_insert''"
        "Exc (Unsupported ''States accumulate in history-preserving mode'')"
        "Stmt (Execute_prepared ''move_from_temp'')"]
  by (simp add: move_from_temp_hf_insert_queries_def)


section \<open>Row locks\<close>

lemma concat_chunks: "0 < n \<Longrightarrow> concat (chunks n xs) = xs"
proof (induction n xs rule: chunks.induct)
  case (1 n xs)
  then show ?case by (subst chunks.simps) auto
qed

lemma table_zoid_tid_current:
  "table_zoid_tid d (current_table kh) = Some (current_rows kh d)"
  by (simp add: table_zoid_tid_def current_table_def current_rows_def)

lemma first_col_single [simp]: "first_col [v] = v"
  by (simp add: first_col_def)

lemma blank_lock_suffix [simp]: "\<not> blank (''  '' @ ''FOR UPDATE'' @ '' '')" "\<not> blank ''FOR UPDATE''"
  by (simp_all add: blank_def)

lemma select_batches_locks:
  assumes "fails cur = (\<lambda>q. None)"
    and "table_zoid_tid (db cur) t = Some tz"
    and "\<not> blank suffix"
  shows "\<exists>rows c. select_batches cur [''zoid''] t suffix ''zoid'' bs = Inr (rows, c)
           \<and> db c = db cur \<and> fails c = fails cur
           \<and> executed c = executed cur @ map (\<lambda>b. (Select_in [''zoid''] t ''zoid'' b suffix, [])) bs
           \<and> row_locks c = row_locks cur
                @ map (Pair t) (filter (\<lambda>v. v \<in> fst ` set tz) (concat bs))"
  using assms
proof (induction bs arbitrary: cur)
  case Nil
  then show ?case by simp
next
  case (Cons b bs)
  let ?c1 = "cur\<lparr>executed := executed cur @ [(Select_in [''zoid''] t ''zoid'' b suffix, [])],
                 result_rows := map (\<lambda>v. [v]) (filter (\<lambda>v. v \<in> fst ` set tz) b),
                 result_lock := Some t\<rparr>"
  have ex: "execute cur (Select_in [''zoid''] t ''zoid'' b suffix) [] = Inr ?c1"
    using Cons.prems by (simp add: execute_def select_in_rows_def)
  let ?c2 = "snd (fetchall ?c1)"
  have c2: "db ?c2 = db cur" "fails ?c2 = (\<lambda>q. None)"
    "executed ?c2 = executed cur @ [(Select_in [''zoid''] t ''zoid'' b suffix, [])]"
    "row_locks ?c2 = row_locks cur @ map (Pair t) (filter (\<lambda>v. v \<in> fst ` set tz) b)"
    using Cons.prems by (simp_all add: fetchall_def comp_def)
  from Cons.IH [of ?c2] c2 Cons.prems
  obtain rows c where r: "select_batches ?c2 [''zoid''] t suffix ''zoid'' bs = Inr (rows, c)"
    "db c = db cur" "fails c = fails cur"
    "executed c = executed ?c2 @ map (\<lambda>b. (Select_in [''zoid''] t ''zoid'' b suffix, [])) bs"
    "row_locks c = row_locks ?c2 @ map (Pair t) (filter (\<lambda>v. v \<in> fst ` set tz) (concat bs))"
    by auto
  show ?case
    using ex r c2 by simp
qed


lemma get_current_objects_query:
  "query_property ''_get_current_objects'' (AbstractLocker kh lx ix)
     = Inr (Stmt_table (Get_current_objects (current_table kh)) (current_table kh))"
  by (simp add: query_property_def prop_func_def AbstractLocker_def AbstractLocker_queries_def
      getitem_def current_table_def)

lemma lock_union_locks:
  assumes nf: "fails cur = (\<lambda>q. None)"
  shows "\<exists>c. lock_current_objects_union (AbstractLocker kh lx ix) cur current_oids = Inr c
           \<and> executed c = executed cur
                @ (Get_current_objects (current_table kh), [])
                # map (\<lambda>b. (Select_in [''zoid''] (current_table kh) ''zoid'' b ''  FOR UPDATE '', []))
                      (chunks 1000 (sorted_list_of_set (lock_targets kh (db cur) current_oids)))
           \<and> row_locks c = row_locks cur
                @ map (Pair (current_table kh))
                    (filter (\<lambda>z. z \<in> fst ` set (current_rows kh (db cur)))
                       (sorted_list_of_set (lock_targets kh (db cur) current_oids)))"
proof -
  let ?t = "current_table kh"
  let ?rows = "map (\<lambda>c. [fst c]) (filter (\<lambda>c. fst c \<in> set (staged_zoids (db cur))) (current_rows kh (db cur)))"
  let ?c1 = "cur\<lparr>executed := executed cur @ [(Get_current_objects ?t, [])],
                 result_rows := ?rows, result_lock := None\<rparr>"
  have ex: "execute cur (Get_current_objects ?t) [] = Inr ?c1"
    using nf by (simp add: execute_def table_zoid_tid_current staged_zoids_def)
  let ?c2 = "snd (fetchall ?c1)"
  have c2: "db ?c2 = db cur" "fails ?c2 = (\<lambda>q. None)"
    "executed ?c2 = executed cur @ [(Get_current_objects ?t, [])]"
    "row_locks ?c2 = row_locks cur" "fst (fetchall ?c1) = ?rows"
    using nf by (simp_all add: fetchall_def)
  let ?ids = "sort (remdups (map first_col ?rows @ current_oids))"
  have ids: "?ids = sorted_list_of_set (lock_targets kh (db cur) current_oids)"
  proof -
    have "set (map first_col ?rows @ current_oids) = lock_targets kh (db cur) current_oids"
      by (auto simp: lock_targets_def comp_def image_iff)
    then show ?thesis
      by (metis sorted_list_of_set_sort_remdups)
  qed
  have tz: "table_zoid_tid (db ?c2) ?t = Some (current_rows kh (db cur))"
    by (simp add: c2 table_zoid_tid_current)
  from select_batches_locks [OF c2(2) tz, of "''  '' @ ''FOR UPDATE'' @ '' ''" "chunks 1000 ?ids"]
  obtain rows c where r:
    "select_batches ?c2 [''zoid''] ?t (''  '' @ ''FOR UPDATE'' @ '' '') ''zoid'' (chunks 1000 ?ids) = Inr (rows, c)"
    "executed c = executed ?c2 @ map (\<lambda>b. (Select_in [''zoid''] ?t ''zoid'' b (''  '' @ ''FOR UPDATE'' @ '' ''), [])) (chunks 1000 ?ids)"
    "row_locks c = row_locks ?c2 @ map (Pair ?t) (filter (\<lambda>v. v \<in> fst ` set (current_rows kh (db cur))) (concat (chunks 1000 ?ids)))"
    using blank_lock_suffix(1) by blast
  have lc: "lock_current_clause (AbstractLocker kh lx ix) = ''FOR UPDATE''"
    by (simp add: AbstractLocker_def)
  have "lock_current_objects_union (AbstractLocker kh lx ix) cur current_oids = Inr c"
    unfolding lock_current_objects_union_def get_current_objects_query
    using ex r(1) c2(5) by (simp add: lc select_from_def Let_def)
  moreover have "concat (chunks 1000 ?ids) = ?ids"
    by (simp add: concat_chunks)
  ultimately show ?thesis
    using r(2,3) c2 ids by simp
qed



lemma map_insort_key: "map f (insort_key f x xs) = insort (f x) (map f xs)"
  by (induction xs) simp_all

lemma map_sort_key: "map f (sort_key f xs) = sort (map f xs)"
  by (induction xs) (simp_all add: map_insort_key)

lemma lock_current_objects_query_abstract:
  "lock_current_objects_query (AbstractLocker kh lx ix)
     = Inr (Order_by_zoid (Get_current_objects (current_table kh)) ''FOR UPDATE'')"
  by (simp add: lock_current_objects_query_def get_current_objects_query)
     (simp add: AbstractLocker_def)

lemma lock_ordered_locks:
  assumes nf: "fails cur = (\<lambda>q. None)"
  shows "\<exists>c. lock_current_objects_ordered (AbstractLocker kh lx ix) cur = Inr c
           \<and> executed c = executed cur
                @ [(Order_by_zoid (Get_current_objects (current_table kh)) ''FOR UPDATE'', [])]
           \<and> row_locks c = row_locks cur
                @ map (Pair (current_table kh))
                    (sort (filter (\<lambda>z. z \<in> set (staged_zoids (db cur)))
                             (map fst (current_rows kh (db cur)))))"
proof -
  let ?t = "current_table kh"
  let ?q = "Order_by_zoid (Get_current_objects ?t) ''FOR UPDATE''"
  let ?sel = "filter (\<lambda>c. fst c \<in> set (staged_zoids (db cur))) (current_rows kh (db cur))"
  let ?rows = "sort_key first_col (map (\<lambda>c. [fst c]) ?sel)"
  let ?c1 = "cur\<lparr>executed := executed cur @ [(?q, [])], result_rows := ?rows,
                 result_lock := Some ?t\<rparr>"
  have ex: "execute cur ?q [] = Inr ?c1"
    using nf by (simp add: execute_def table_zoid_tid_current staged_zoids_def)
  have "map first_col ?rows = sort (map first_col (map (\<lambda>c. [fst c]) ?sel))"
    by (rule map_sort_key)
  also have "map first_col (map (\<lambda>c. [fst c]) ?sel)
               = filter (\<lambda>z. z \<in> set (staged_zoids (db cur))) (map fst (current_rows kh (db cur)))"
    by (simp add: comp_def filter_map)
  finally have keys: "map first_col ?rows
      = sort (filter (\<lambda>z. z \<in> set (staged_zoids (db cur))) (map fst (current_rows kh (db cur))))" .
  have "map (\<lambda>r. (?t, first_col r)) ?rows = map (Pair ?t) (map first_col ?rows)"
    by simp
  with keys have locks: "map (\<lambda>r. (?t, first_col r)) ?rows
      = map (Pair ?t) (sort (filter (\<lambda>z. z \<in> set (staged_zoids (db cur)))
                               (map fst (current_rows kh (db cur)))))"
    by simp
  show ?thesis
    unfolding lock_current_objects_ordered_def lock_current_objects_query_abstract
    using ex locks by (simp add: fetchall_def)
qed

lemma locks_taken_append [simp]:
  "row_locks c = row_locks cur @ ls \<Longrightarrow> locks_taken cur c = ls"
  by (simp add: locks_taken_def)

text \<open>
  C2. With a non-empty \<open>current_oids\<close>, \<open>lock_current_objects\<close> takes the staged objects
  that have a current row, unites them with \<open>current_oids\<close>, sorts the union ascending and
  hands it to the batcher's locking select in that order; the row locks are taken in
  ascending zoid order (an id with no row has nothing to lock). Two sessions with the same
  staged set, the same ids passed and the same current rows, in whatever order each was
  staged, passed or stored, take the same locks in the same order.
\<close>

theorem lock_current_objects_sorted_union:
  assumes "current_oids \<noteq> []" and "fails cur = (\<lambda>q. None)"
    and "current_oids' \<noteq> []" and "fails cur' = (\<lambda>q. None)"
    and "set current_oids' = set current_oids"
    and "set (staged_zoids (db cur')) = set (staged_zoids (db cur))"
    and "fst ` set (current_rows kh (db cur')) = fst ` set (current_rows kh (db cur))"
  shows "\<exists>c c'. lock_current_objects (AbstractLocker kh lx ix) cur current_oids = Inr c
           \<and> executed c = executed cur
                @ (Get_current_objects (current_table kh), [])
                # map (\<lambda>b. (Select_in [''zoid''] (current_table kh) ''zoid'' b ''  FOR UPDATE '', []))
                      (chunks 1000 (sorted_list_of_set (lock_targets kh (db cur) current_oids)))
           \<and> locks_taken cur c
                = map (Pair (current_table kh))
                    (filter (\<lambda>z. z \<in> fst ` set (current_rows kh (db cur)))
                       (sorted_list_of_set (lock_targets kh (db cur) current_oids)))
           \<and> sorted (map snd (locks_taken cur c))
           \<and> lock_current_objects (AbstractLocker kh lx ix) cur' current_oids' = Inr c'
           \<and> locks_taken cur' c' = locks_taken cur c"
proof -
  from lock_union_locks [OF assms(2), of kh lx ix current_oids]
  obtain c where c: "lock_current_objects_union (AbstractLocker kh lx ix) cur current_oids = Inr c"
    "executed c = executed cur
                @ (Get_current_objects (current_table kh), [])
                # map (\<lambda>b. (Select_in [''zoid''] (current_table kh) ''zoid'' b ''  FOR UPDATE '', []))
                      (chunks 1000 (sorted_list_of_set (lock_targets kh (db cur) current_oids)))"
    "row_locks c = row_locks cur
                @ map (Pair (current_table kh))
                    (filter (\<lambda>z. z \<in> fst ` set (current_rows kh (db cur)))
                       (sorted_list_of_set (lock_targets kh (db cur) current_oids)))"
    by blast
  from lock_union_locks [OF assms(4), of kh lx ix current_oids']
  obtain c' where c': "lock_current_objects_union (AbstractLocker kh lx ix) cur' current_oids' = Inr c'"
    "row_locks c' = row_locks cur'
                @ map (Pair (current_table kh))
                    (filter (\<lambda>z. z \<in> fst ` set (current_rows kh (db cur')))
                       (sorted_list_of_set (lock_targets kh (db cur') current_oids')))"
    by blast
  have same: "lock_targets kh (db cur') current_oids' = lock_targets kh (db cur) current_oids"
    using assms(5-7) by (simp add: lock_targets_def)
  have srt: "sorted (filter (\<lambda>z. z \<in> fst ` set (current_rows kh (db cur)))
                       (sorted_list_of_set (lock_targets kh (db cur) current_oids)))"
    by (rule sorted_wrt_filter) simp
  have l: "locks_taken cur c = map (Pair (current_table kh))
                    (filter (\<lambda>z. z \<in> fst ` set (current_rows kh (db cur)))
                       (sorted_list_of_set (lock_targets kh (db cur) current_oids)))"
    using c(3) by simp
  have l': "locks_taken cur' c' = locks_taken cur c"
    using c'(2) l same assms(7) by simp
  have "sorted (map snd (locks_taken cur c))"
    using srt by (simp add: l comp_def)
  with c c' l l' assms(1,3) show ?thesis
    by (simp add: lock_current_objects_def)
qed

text \<open>
  C8. With an empty \<open>current_oids\<close>, the single ordered locking statement locks the same
  rows, in the same ascending zoid order, as the union-sort-batch path run with no ids
  passed: the current rows of the staged objects. (\<open>zoid\<close> is the primary key of the
  table of current rows.)
\<close>

theorem lock_current_objects_paths_agree:
  assumes "fails cur = (\<lambda>q. None)"
    and "distinct (map fst (current_rows kh (db cur)))"
  shows "\<exists>c1 c2. lock_current_objects (AbstractLocker kh lx ix) cur [] = Inr c1
           \<and> lock_current_objects_union (AbstractLocker kh lx ix) cur [] = Inr c2
           \<and> executed c1 = executed cur
                @ [(Order_by_zoid (Get_current_objects (current_table kh)) ''FOR UPDATE'', [])]
           \<and> locks_taken cur c1 = locks_taken cur c2
           \<and> set (locks_taken cur c1)
                = Pair (current_table kh)
                  ` (fst ` set (current_rows kh (db cur)) \<inter> set (staged_zoids (db cur)))
           \<and> sorted (map snd (locks_taken cur c1))"
proof -
  let ?Z = "map fst (current_rows kh (db cur))"
  let ?sel = "filter (\<lambda>z. z \<in> set (staged_zoids (db cur))) ?Z"
  from lock_ordered_locks [OF assms(1), of kh lx ix]
  obtain c1 where c1: "lock_current_objects_ordered (AbstractLocker kh lx ix) cur = Inr c1"
    "executed c1 = executed cur
                @ [(Order_by_zoid (Get_current_objects (current_table kh)) ''FOR UPDATE'', [])]"
    "row_locks c1 = row_locks cur @ map (Pair (current_table kh)) (sort ?sel)"
    by blast
  from lock_union_locks [OF assms(1), of kh lx ix "[]"]
  obtain c2 where c2: "lock_current_objects_union (AbstractLocker kh lx ix) cur [] = Inr c2"
    "row_locks c2 = row_locks cur
                @ map (Pair (current_table kh))
                    (filter (\<lambda>z. z \<in> fst ` set (current_rows kh (db cur)))
                       (sorted_list_of_set (lock_targets kh (db cur) [])))"
    by blast
  have tg: "lock_targets kh (db cur) [] = set ?sel"
    by (auto simp: lock_targets_def)
  have "distinct ?sel"
    using assms(2) by (rule distinct_filter)
  then have s: "sorted_list_of_set (set ?sel) = sort ?sel"
    by (metis sorted_list_of_set_sort_remdups distinct_remdups_id)
  have "filter (\<lambda>z. z \<in> fst ` set (current_rows kh (db cur))) (sort ?sel) = sort ?sel"
    by (rule filter_True) auto
  with c2(2) tg s have r2: "row_locks c2 = row_locks cur @ map (Pair (current_table kh)) (sort ?sel)"
    by simp
  have l1: "locks_taken cur c1 = map (Pair (current_table kh)) (sort ?sel)"
    using c1(3) by simp
  have l2: "locks_taken cur c2 = map (Pair (current_table kh)) (sort ?sel)"
    using r2 by simp
  have st: "set (locks_taken cur c1)
      = Pair (current_table kh) ` (fst ` set (current_rows kh (db cur)) \<inter> set (staged_zoids (db cur)))"
    unfolding l1 by auto
  have "sorted (map snd (locks_taken cur c1))"
    by (simp add: l1 comp_def)
  with c1 c2 l1 l2 st show ?thesis
    by (simp add: lock_current_objects_def)
qed


theorem lock_current_objects_sorted_union_witness:
  "\<exists>c c'. lock_current_objects (AbstractLocker True (\<lambda>e. False) (\<lambda>e. False)) (ex_cursor ex_db) [7, 1] = Inr c
     \<and> locks_taken (ex_cursor ex_db) c
          = [(''current_object'', 3), (''current_object'', 7), (''current_object'', 9)]
     \<and> lock_current_objects (AbstractLocker True (\<lambda>e. False) (\<lambda>e. False))
          (ex_cursor (ex_db\<lparr>temp_store := rev (temp_store ex_db)\<rparr>)) [1, 7, 1] = Inr c'
     \<and> locks_taken (ex_cursor (ex_db\<lparr>temp_store := rev (temp_store ex_db)\<rparr>)) c'
          = [(''current_object'', 3), (''current_object'', 7), (''current_object'', 9)]"
proof -
  have v: "filter (\<lambda>z. z \<in> fst ` set (current_rows True (db (ex_cursor ex_db))))
             (sorted_list_of_set (lock_targets True (db (ex_cursor ex_db)) [7, 1])) = [3, 7, 9]"
    by code_simp
  have h: "[7, 1] \<noteq> ([] :: int list)" "fails (ex_cursor ex_db) = (\<lambda>q. None)"
    "[1, 7, 1] \<noteq> ([] :: int list)"
    "fails (ex_cursor (ex_db\<lparr>temp_store := rev (temp_store ex_db)\<rparr>)) = (\<lambda>q. None)"
    "set [1, 7, 1] = set [7, 1 :: int]"
    "set (staged_zoids (db (ex_cursor (ex_db\<lparr>temp_store := rev (temp_store ex_db)\<rparr>))))
       = set (staged_zoids (db (ex_cursor ex_db)))"
    "fst ` set (current_rows True (db (ex_cursor (ex_db\<lparr>temp_store := rev (temp_store ex_db)\<rparr>))))
       = fst ` set (current_rows True (db (ex_cursor ex_db)))"
    by (auto simp: ex_cursor_def staged_zoids_def current_rows_def)
  show ?thesis
    using lock_current_objects_sorted_union [OF h, of "\<lambda>e. False" "\<lambda>e. False"] v
    by (auto simp: current_table_def)
qed

theorem lock_current_objects_paths_agree_witness:
  "\<exists>c1 c2. lock_current_objects (AbstractLocker True (\<lambda>e. False) (\<lambda>e. False)) (ex_cursor ex_db) [] = Inr c1
     \<and> lock_current_objects_union (AbstractLocker True (\<lambda>e. False) (\<lambda>e. False)) (ex_cursor ex_db) [] = Inr c2
     \<and> locks_taken (ex_cursor ex_db) c1 = locks_taken (ex_cursor ex_db) c2
     \<and> set (locks_taken (ex_cursor ex_db) c1) = {(''current_object'', 3), (''current_object'', 9)}"
proof -
  have h: "fails (ex_cursor ex_db) = (\<lambda>q. None)"
    "distinct (map fst (current_rows True (db (ex_cursor ex_db))))"
    by (simp_all add: ex_cursor_def current_rows_def ex_db_def)
  have v: "fst ` set (current_rows True (db (ex_cursor ex_db))) \<inter> set (staged_zoids (db (ex_cursor ex_db)))
             = {3, 9}"
    by (auto simp: ex_cursor_def current_rows_def ex_db_def staged_zoids_def)
  show ?thesis
    using lock_current_objects_paths_agree [OF h, of "\<lambda>e. False" "\<lambda>e. False"] v
    by (auto simp: current_table_def)
qed

section \<open>Conflict detection\<close>

lemma detect_conflict_query_abstract:
  "query_property ''_detect_conflict'' (AbstractObjectMover kh h)
     = Inr (Stmt (Detect_conflict (current_table kh)))"
  by (simp add: query_property_def prop_func_def AbstractObjectMover_def
      AbstractObjectMover_queries_def getitem_def current_table_def)

lemma set_detect_rows:
  "set (concat (map (\<lambda>s. map (\<lambda>c. [ts_zoid s, snd c, ts_prev_tid s])
                               (filter (\<lambda>c. fst c = ts_zoid s \<and> ts_prev_tid s \<noteq> snd c) cur))
                    ts))
     = {[z, t, p] |z t p. (z, p) \<in> (\<lambda>s. (ts_zoid s, ts_prev_tid s)) ` set ts \<and> (z, t) \<in> set cur \<and> p \<noteq> t}"
  (is "?L = ?R")
proof (rule set_eqI)
  fix r
  show "r \<in> ?L \<longleftrightarrow> r \<in> ?R"
  proof
    assume "r \<in> ?L"
    then obtain s c where "s \<in> set ts" "c \<in> set cur" "fst c = ts_zoid s" "ts_prev_tid s \<noteq> snd c"
      "r = [ts_zoid s, snd c, ts_prev_tid s]"
      by auto
    then show "r \<in> ?R"
      by (cases c) force
  next
    assume "r \<in> ?R"
    then obtain z t p s where "r = [z, t, p]" "s \<in> set ts" "ts_zoid s = z" "ts_prev_tid s = p"
      "(z, t) \<in> set cur" "p \<noteq> t"
      by auto
    then show "r \<in> ?L"
      by force
  qed
qed

text \<open>
  C1. \<open>detect_conflict\<close> returns exactly the records (zoid, current tid, expected
  predecessor tid) of the staged objects whose expected predecessor differs from the tid of
  their current row; the rows come in ascending zoid order; the result is empty exactly
  when no staged object has a differing current row. The database is left as it was.
\<close>

theorem detect_conflict_exact_and_ordered:
  assumes "fails cur (Detect_conflict (current_table kh)) = None"
  shows "\<exists>rows c. detect_conflict (AbstractObjectMover kh h) cur = Inr (rows, c)
           \<and> set rows = {[z, t, p] |z t p.
                 (z, p) \<in> set (staged (db cur)) \<and> (z, t) \<in> set (current_rows kh (db cur)) \<and> p \<noteq> t}
           \<and> sorted (map first_col rows)
           \<and> (rows = [] \<longleftrightarrow>
                \<not> (\<exists>z t p. (z, p) \<in> set (staged (db cur)) \<and> (z, t) \<in> set (current_rows kh (db cur)) \<and> p \<noteq> t))
           \<and> db c = db cur"
proof -
  let ?raw = "concat (map (\<lambda>s. map (\<lambda>c. [ts_zoid s, snd c, ts_prev_tid s])
                               (filter (\<lambda>c. fst c = ts_zoid s \<and> ts_prev_tid s \<noteq> snd c)
                                  (current_rows kh (db cur))))
                    (temp_store (db cur)))"
  let ?rows = "sort_key first_col ?raw"
  let ?S = "{[z, t, p] |z t p.
                 (z, p) \<in> set (staged (db cur)) \<and> (z, t) \<in> set (current_rows kh (db cur)) \<and> p \<noteq> t}"
  let ?c1 = "cur\<lparr>executed := executed cur @ [(Detect_conflict (current_table kh), [])],
                 result_rows := ?rows, result_lock := None\<rparr>"
  have ex: "execute cur (Detect_conflict (current_table kh)) [] = Inr ?c1"
    using assms by (simp add: execute_def table_zoid_tid_current)
  have dc: "detect_conflict (AbstractObjectMover kh h) cur = Inr (?rows, snd (fetchall ?c1))"
    unfolding detect_conflict_def detect_conflict_query_abstract
    using ex by (simp add: fetchall_def)
  have "set ?rows = set ?raw"
    by (rule set_sort)
  also have "set ?raw = {[z, t, p] |z t p.
        (z, p) \<in> (\<lambda>s. (ts_zoid s, ts_prev_tid s)) ` set (temp_store (db cur))
        \<and> (z, t) \<in> set (current_rows kh (db cur)) \<and> p \<noteq> t}"
    by (rule set_detect_rows)
  also have "\<dots> = ?S"
    unfolding staged_def set_map ..
  finally have st: "set ?rows = ?S" .
  have srt: "sorted (map first_col ?rows)"
    by (rule sorted_sort_key)
  have emp: "?rows = [] \<longleftrightarrow> ?S = {}"
    unfolding st [symmetric] by (rule set_empty [symmetric])
  have emp': "?S = {} \<longleftrightarrow>
      \<not> (\<exists>z t p. (z, p) \<in> set (staged (db cur)) \<and> (z, t) \<in> set (current_rows kh (db cur)) \<and> p \<noteq> t)"
    by blast
  have dbc: "db (snd (fetchall ?c1)) = db cur"
    by (simp add: fetchall_def)
  have emp'': "?rows = [] \<longleftrightarrow>
      \<not> (\<exists>z t p. (z, p) \<in> set (staged (db cur)) \<and> (z, t) \<in> set (current_rows kh (db cur)) \<and> p \<noteq> t)"
    using emp emp' by (rule trans)
  show ?thesis
  proof (intro exI conjI)
    show "detect_conflict (AbstractObjectMover kh h) cur = Inr (?rows, snd (fetchall ?c1))"
      by (rule dc)
    show "set ?rows = ?S" by (rule st)
    show "sorted (map first_col ?rows)" by (rule srt)
    show "?rows = [] \<longleftrightarrow>
      \<not> (\<exists>z t p. (z, p) \<in> set (staged (db cur)) \<and> (z, t) \<in> set (current_rows kh (db cur)) \<and> p \<noteq> t)"
      by (rule emp'')
    show "db (snd (fetchall ?c1)) = db cur" by (rule dbc)
  qed
qed



theorem detect_conflict_exact_and_ordered_witness:
  "\<exists>rows c. detect_conflict (AbstractObjectMover True (\<lambda>b. [])) (ex_cursor ex_db) = Inr (rows, c)
     \<and> rows = [[9, 3, 5]]
     \<and> set rows = {[z, t, p] |z t p. (z, p) \<in> set (staged ex_db)
                      \<and> (z, t) \<in> set (current_rows True ex_db) \<and> p \<noteq> t}
     \<and> sorted (map first_col rows)"
proof -
  have h: "fails (ex_cursor ex_db) (Detect_conflict (current_table True)) = None"
    by (simp add: ex_cursor_def)
  have d: "db (ex_cursor ex_db) = ex_db"
    by (simp add: ex_cursor_def)
  have e: "map_sum id fst (detect_conflict (AbstractObjectMover True (\<lambda>b. [])) (ex_cursor ex_db))
             = Inr [[9, 3, 5]]"
    by code_simp
  from detect_conflict_exact_and_ordered [OF h, of "\<lambda>b. []"]
  obtain rows c where r:
    "detect_conflict (AbstractObjectMover True (\<lambda>b. [])) (ex_cursor ex_db) = Inr (rows, c)"
    "set rows = {[z, t, p] |z t p. (z, p) \<in> set (staged (db (ex_cursor ex_db)))
              \<and> (z, t) \<in> set (current_rows True (db (ex_cursor ex_db))) \<and> p \<noteq> t}"
    "sorted (map first_col rows)"
    by (elim exE conjE) (rule that)
  from e r(1) have "rows = [[9, 3, 5]]"
    by simp
  with r show ?thesis
    unfolding d by (intro exI conjI)
qed

section \<open>The commit lock\<close>

lemma commit_lock_stmt_class:
  assumes "queries_attr self = AbstractLocker_queries"
  shows "commit_lock_stmt self nowait = Inr (Stmt (commit_lock_sql self nowait))"
  using assms
  by (simp add: commit_lock_stmt_def commit_lock_sql_def query_property_def prop_func_def
      AbstractLocker_queries_def getitem_def)

lemma select_rows_commit_lock_sql:
  "select_rows d (commit_lock_sql self nowait) [] = Inr (map (\<lambda>t. [t]) (commit_row_lock d))"
  by (simp add: commit_lock_sql_def)

lemma lock_table_commit_lock_sql:
  "lock_table (commit_lock_sql self nowait) = Some ''commit_row_lock''"
  by (simp add: commit_lock_sql_def)

lemma apply_dml_commit_lock_sql:
  "apply_dml d (commit_lock_sql self nowait) [] = Inr d"
  by (simp add: commit_lock_sql_def)

lemma hold_commit_lock_try_fails:
  assumes "fails cur q = Some e"
  shows "hold_commit_lock_try cur (Stmt q) = Inl (e, cur\<lparr>executed := executed cur @ [(q, [])]\<rparr>)"
  using assms by (simp add: hold_commit_lock_try_def execute_def attempted_def)

lemma hold_commit_lock_try_rows:
  assumes "fails cur (commit_lock_sql self nowait) = None"
  shows "hold_commit_lock_try cur (Stmt (commit_lock_sql self nowait))
           = (if commit_row_lock (db cur) = []
              then Inl (UnableToAcquireCommitLockError no_row_message,
                        cur\<lparr>executed := executed cur @ [(commit_lock_sql self nowait, [])],
                            result_rows := [],
                            result_lock := Some ''commit_row_lock''\<rparr>)
              else Inr (cur\<lparr>executed := executed cur @ [(commit_lock_sql self nowait, [])],
                           result_rows := [],
                           result_lock := Some ''commit_row_lock'',
                           row_locks := row_locks cur
                              @ map (Pair ''commit_row_lock'') (commit_row_lock (db cur))\<rparr>))"
proof (cases "commit_row_lock (db cur)")
  case Nil
  then show ?thesis
    using assms
    by (simp add: hold_commit_lock_try_def execute_def select_rows_commit_lock_sql
        apply_dml_commit_lock_sql lock_table_commit_lock_sql fetchall_def)
next
  case (Cons t ts)
  then show ?thesis
    using assms
    by (simp add: hold_commit_lock_try_def execute_def select_rows_commit_lock_sql
        apply_dml_commit_lock_sql lock_table_commit_lock_sql fetchall_def comp_def)
qed

lemma hold_commit_lock_cur:
  "(if nowait \<and> \<not> supports_row_lock_nowait self then set_row_lock_nowait self cur else cur) = cur"
  by (simp add: set_row_lock_nowait_def set_row_lock_timeout_def)

lemma hold_commit_lock_cases:
  assumes "queries_attr self = AbstractLocker_queries"
  shows "hold_commit_lock self cur ensure_current nowait =
           (case hold_commit_lock_try cur (Stmt (commit_lock_sql self nowait)) of
              Inr c \<Rightarrow> Inr (True, c)
            | Inl (e, c) \<Rightarrow>
                if illegal_operation_exceptions self e then Inl (e, c)
                else if lock_exceptions self e then
                  (if nowait then Inr (False, c)
                   else Inl (UnableToAcquireCommitLockError
                          (lock_failed_message e
                             (case get_commit_lock_debug_info self c of
                                Inr info \<Rightarrow> info
                              | Inl nested \<Rightarrow> repr_nested nested)), c))
                else Inl (e, c))"
  by (simp add: hold_commit_lock_def commit_lock_stmt_class [OF assms] hold_commit_lock_cur Let_def
      split: sum.splits prod.splits)

text \<open>
  C4. In either mode of \<open>hold_commit_lock\<close>, an exception of the driver's
  illegal-operation category raised by the backend for the lock statement leaves the call
  as it is: not turned into \<open>UnableToAcquireCommitLockError\<close>, not into a \<open>False\<close>
  return; also when the exception is of the lock-contention category too. The statement
  is not run again: the cursor that leaves the call with the exception has executed the
  lock statement once and nothing else, and holds no new row lock.
\<close>

theorem illegal_operation_propagates:
  assumes "queries_attr self = AbstractLocker_queries"
    and "fails cur (commit_lock_sql self nowait) = Some e"
    and "illegal_operation_exceptions self e"
  shows "hold_commit_lock self cur ensure_current nowait
           = Inl (e, cur\<lparr>executed := executed cur @ [(commit_lock_sql self nowait, [])]\<rparr>)"
  using assms(2,3)
  by (simp add: hold_commit_lock_cases [OF assms(1)] hold_commit_lock_try_fails)

theorem illegal_operation_propagates_witness:
  "dbapi_lock_exceptions (DatabaseError ''ProgrammingError'' ''syntax error'')
   \<and> hold_commit_lock (AbstractLocker True dbapi_lock_exceptions dbapi_illegal_operation_exceptions)
        (failing_cursor ex_db (DatabaseError ''ProgrammingError'' ''syntax error'')) False True
       = Inl (DatabaseError ''ProgrammingError'' ''syntax error'',
              (failing_cursor ex_db (DatabaseError ''ProgrammingError'' ''syntax error''))
                \<lparr>executed := [(Append Commit_lock '' NOWAIT'', [])]\<rparr>)
   \<and> hold_commit_lock (AbstractLocker True dbapi_lock_exceptions dbapi_illegal_operation_exceptions)
        (failing_cursor ex_db (DatabaseError ''ProgrammingError'' ''syntax error'')) False False
       = Inl (DatabaseError ''ProgrammingError'' ''syntax error'',
              (failing_cursor ex_db (DatabaseError ''ProgrammingError'' ''syntax error''))
                \<lparr>executed := [(Commit_lock, [])]\<rparr>)"
proof -
  let ?self = "AbstractLocker True dbapi_lock_exceptions dbapi_illegal_operation_exceptions"
  let ?e = "DatabaseError ''ProgrammingError'' ''syntax error''"
  have q: "queries_attr ?self = AbstractLocker_queries"
    by (simp add: AbstractLocker_def)
  have f: "fails (failing_cursor ex_db ?e) (commit_lock_sql ?self nowait) = Some ?e" for nowait
    by (simp add: failing_cursor_def)
  have i: "illegal_operation_exceptions ?self ?e"
    by (simp add: AbstractLocker_def dbapi_illegal_operation_exceptions_def)
  have l: "dbapi_lock_exceptions ?e"
    by (simp add: dbapi_lock_exceptions_def)
  have s: "commit_lock_sql ?self True = Append Commit_lock '' NOWAIT''"
    "commit_lock_sql ?self False = Commit_lock"
    by (simp_all add: commit_lock_sql_def AbstractLocker_def)
  have x: "executed (failing_cursor ex_db ?e) = []"
    by (simp add: failing_cursor_def)
  show ?thesis
    using illegal_operation_propagates [where nowait = True and ensure_current = False, OF q f i]
      illegal_operation_propagates [where nowait = False and ensure_current = False, OF q f i] l
    by (simp add: s x)
qed

text \<open>
  C3, amended. When the lock statement fails with an exception of the lock-contention
  category that is not of the illegal-operation category, \<open>hold_commit_lock\<close> returns
  \<open>False\<close> with \<open>nowait\<close> and raises \<open>UnableToAcquireCommitLockError\<close> (its message the
  exception's, with the debug information) without; when the statement succeeds and
  returns the lock row, it returns \<open>True\<close>, holding the row.
\<close>

theorem contention_false_or_raise:
  assumes "queries_attr self = AbstractLocker_queries"
  shows "(fails cur (commit_lock_sql self nowait) = Some e \<and> lock_exceptions self e
            \<and> \<not> illegal_operation_exceptions self e
          \<longrightarrow> hold_commit_lock self cur ensure_current nowait =
                (if nowait
                 then Inr (False, cur\<lparr>executed := executed cur @ [(commit_lock_sql self nowait, [])]\<rparr>)
                 else Inl (UnableToAcquireCommitLockError
                        (lock_failed_message e
                           (case get_commit_lock_debug_info self
                                   (cur\<lparr>executed := executed cur @ [(commit_lock_sql self nowait, [])]\<rparr>) of
                              Inr info \<Rightarrow> info
                            | Inl nested \<Rightarrow> repr_nested nested)),
                      cur\<lparr>executed := executed cur @ [(commit_lock_sql self nowait, [])]\<rparr>)))
       \<and> (fails cur (commit_lock_sql self nowait) = None \<and> commit_row_lock (db cur) \<noteq> []
          \<longrightarrow> (\<exists>c. hold_commit_lock self cur ensure_current nowait = Inr (True, c)
                  \<and> locks_taken cur c
                      = map (Pair ''commit_row_lock'') (commit_row_lock (db cur))))"
proof (rule conjI; rule impI)
  let ?a = "cur\<lparr>executed := executed cur @ [(commit_lock_sql self nowait, [])]\<rparr>"
  assume a: "fails cur (commit_lock_sql self nowait) = Some e \<and> lock_exceptions self e
            \<and> \<not> illegal_operation_exceptions self e"
  then have "hold_commit_lock_try cur (Stmt (commit_lock_sql self nowait)) = Inl (e, ?a)"
    by (simp add: hold_commit_lock_try_fails)
  with a show "hold_commit_lock self cur ensure_current nowait =
                (if nowait then Inr (False, ?a)
                 else Inl (UnableToAcquireCommitLockError
                        (lock_failed_message e
                           (case get_commit_lock_debug_info self ?a of
                              Inr info \<Rightarrow> info
                            | Inl nested \<Rightarrow> repr_nested nested)), ?a))"
    by (simp add: hold_commit_lock_cases [OF assms])
next
  assume a: "fails cur (commit_lock_sql self nowait) = None \<and> commit_row_lock (db cur) \<noteq> []"
  let ?c = "cur\<lparr>executed := executed cur @ [(commit_lock_sql self nowait, [])],
                 result_rows := [],
                 result_lock := Some ''commit_row_lock'',
                 row_locks := row_locks cur
                    @ map (Pair ''commit_row_lock'') (commit_row_lock (db cur))\<rparr>"
  from a have "hold_commit_lock_try cur (Stmt (commit_lock_sql self nowait)) = Inr ?c"
    by (simp add: hold_commit_lock_try_rows)
  then have "hold_commit_lock self cur ensure_current nowait = Inr (True, ?c)"
    by (simp add: hold_commit_lock_cases [OF assms])
  moreover have "locks_taken cur ?c = map (Pair ''commit_row_lock'') (commit_row_lock (db cur))"
    by (simp add: locks_taken_def)
  ultimately show "\<exists>c. hold_commit_lock self cur ensure_current nowait = Inr (True, c)
                  \<and> locks_taken cur c
                      = map (Pair ''commit_row_lock'') (commit_row_lock (db cur))"
    by blast
qed

theorem contention_false_or_raise_witness:
  "hold_commit_lock (AbstractLocker True dbapi_lock_exceptions dbapi_illegal_operation_exceptions)
      (failing_cursor ex_db (DatabaseError ''OperationalError'' ''lock timeout'')) False True
     = Inr (False, (failing_cursor ex_db (DatabaseError ''OperationalError'' ''lock timeout''))
                     \<lparr>executed := [(Append Commit_lock '' NOWAIT'', [])]\<rparr>)
   \<and> hold_commit_lock (AbstractLocker True dbapi_lock_exceptions dbapi_illegal_operation_exceptions)
      (failing_cursor ex_db (DatabaseError ''OperationalError'' ''lock timeout'')) False False
     = Inl (UnableToAcquireCommitLockError ''Acquiring a commit lock failed: lock timeout'',
            (failing_cursor ex_db (DatabaseError ''OperationalError'' ''lock timeout''))
              \<lparr>executed := [(Commit_lock, [])]\<rparr>)
   \<and> (\<exists>c. hold_commit_lock (AbstractLocker True dbapi_lock_exceptions dbapi_illegal_operation_exceptions)
          (ex_cursor ex_db) False False = Inr (True, c)
        \<and> locks_taken (ex_cursor ex_db) c = [(''commit_row_lock'', 0)])"
proof -
  let ?self = "AbstractLocker True dbapi_lock_exceptions dbapi_illegal_operation_exceptions"
  let ?e = "DatabaseError ''OperationalError'' ''lock timeout''"
  have q: "queries_attr ?self = AbstractLocker_queries"
    by (simp add: AbstractLocker_def)
  have f: "fails (failing_cursor ex_db ?e) (commit_lock_sql ?self nowait) = Some ?e
           \<and> lock_exceptions ?self ?e \<and> \<not> illegal_operation_exceptions ?self ?e" for nowait
    by (simp add: failing_cursor_def AbstractLocker_def dbapi_lock_exceptions_def
        dbapi_illegal_operation_exceptions_def)
  have g: "fails (ex_cursor ex_db) (commit_lock_sql ?self False) = None
           \<and> commit_row_lock (db (ex_cursor ex_db)) \<noteq> []"
    by (simp add: ex_cursor_def ex_db_def)
  have d: "get_commit_lock_debug_info ?self = (\<lambda>cur. Inr [])"
    by (simp add: AbstractLocker_def)
  have r: "commit_row_lock (db (ex_cursor ex_db)) = [0]"
    by (simp add: ex_cursor_def ex_db_def)
  have s: "commit_lock_sql ?self True = Append Commit_lock '' NOWAIT''"
    "commit_lock_sql ?self False = Commit_lock"
    by (simp_all add: commit_lock_sql_def AbstractLocker_def)
  have x: "executed (failing_cursor ex_db ?e) = []"
    by (simp add: failing_cursor_def)
  from contention_false_or_raise [OF q, of "failing_cursor ex_db ?e" True ?e False] f [of True]
  have one: "hold_commit_lock ?self (failing_cursor ex_db ?e) False True
      = Inr (False, (failing_cursor ex_db ?e)\<lparr>executed := [(Append Commit_lock '' NOWAIT'', [])]\<rparr>)"
    by (simp add: s x)
  from contention_false_or_raise [OF q, of "failing_cursor ex_db ?e" False ?e False] f [of False]
  have two: "hold_commit_lock ?self (failing_cursor ex_db ?e) False False
      = Inl (UnableToAcquireCommitLockError ''Acquiring a commit lock failed: lock timeout'',
             (failing_cursor ex_db ?e)\<lparr>executed := [(Commit_lock, [])]\<rparr>)"
    by (simp add: d s x lock_failed_message_def)
  from contention_false_or_raise [OF q, of "ex_cursor ex_db" False ?e False] g
  have three: "\<exists>c. hold_commit_lock ?self (ex_cursor ex_db) False False = Inr (True, c)
        \<and> locks_taken (ex_cursor ex_db) c = [(''commit_row_lock'', 0)]"
    by (simp add: r)
  from one two three show ?thesis
    by (intro conjI)
qed

text \<open>
  C3 as stated fails: with \<open>nowait\<close>, a \<open>ProgrammingError\<close> is of the driver's
  lock-contention category, and the call raises it instead of returning \<open>False\<close>.
\<close>

theorem contention_claim_counterexample:
  "fails (failing_cursor ex_db (DatabaseError ''ProgrammingError'' ''relation does not exist''))
      (Append Commit_lock '' NOWAIT'')
     = Some (DatabaseError ''ProgrammingError'' ''relation does not exist'')
   \<and> lock_exceptions (AbstractLocker True dbapi_lock_exceptions dbapi_illegal_operation_exceptions)
        (DatabaseError ''ProgrammingError'' ''relation does not exist'')
   \<and> hold_commit_lock (AbstractLocker True dbapi_lock_exceptions dbapi_illegal_operation_exceptions)
        (failing_cursor ex_db (DatabaseError ''ProgrammingError'' ''relation does not exist''))
        False True
       = Inl (DatabaseError ''ProgrammingError'' ''relation does not exist'',
              (failing_cursor ex_db (DatabaseError ''ProgrammingError'' ''relation does not exist''))
                \<lparr>executed := [(Append Commit_lock '' NOWAIT'', [])]\<rparr>)"
proof -
  let ?self = "AbstractLocker True dbapi_lock_exceptions dbapi_illegal_operation_exceptions"
  let ?e = "DatabaseError ''ProgrammingError'' ''relation does not exist''"
  have q: "queries_attr ?self = AbstractLocker_queries"
    by (simp add: AbstractLocker_def)
  have s: "commit_lock_sql ?self True = Append Commit_lock '' NOWAIT''"
    by (simp add: commit_lock_sql_def AbstractLocker_def)
  have t: "hold_commit_lock_try (failing_cursor ex_db ?e) (Stmt (commit_lock_sql ?self True))
             = Inl (?e, (failing_cursor ex_db ?e)\<lparr>executed := [(Append Commit_lock '' NOWAIT'', [])]\<rparr>)"
    unfolding s
    by (subst hold_commit_lock_try_fails [where e = ?e]) (simp_all add: failing_cursor_def)
  have "hold_commit_lock ?self (failing_cursor ex_db ?e) False True
          = Inl (?e, (failing_cursor ex_db ?e)\<lparr>executed := [(Append Commit_lock '' NOWAIT'', [])]\<rparr>)"
    unfolding hold_commit_lock_cases [OF q] t
    by (simp add: AbstractLocker_def dbapi_illegal_operation_exceptions_def)
  then show ?thesis
    by (simp add: failing_cursor_def AbstractLocker_def dbapi_lock_exceptions_def)
qed

text \<open>
  C10, amended. When the lock statement runs without an error of the backend and returns
  no row (\<open>commit_row_lock\<close> is empty), \<open>hold_commit_lock\<close> raises
  \<open>UnableToAcquireCommitLockError\<close> with or without \<open>nowait\<close>, for a driver whose
  lock-contention category does not hold that error itself; and a \<open>False\<close> return comes
  only with \<open>nowait\<close>, from an exception of the backend that is of the lock-contention
  and not of the illegal-operation category.
\<close>

theorem no_row_raises:
  assumes "queries_attr self = AbstractLocker_queries"
    and "\<not> lock_exceptions self (UnableToAcquireCommitLockError no_row_message)"
  shows "(fails cur (commit_lock_sql self nowait) = None \<and> commit_row_lock (db cur) = []
          \<longrightarrow> hold_commit_lock self cur ensure_current nowait
                = Inl (UnableToAcquireCommitLockError no_row_message,
                       cur\<lparr>executed := executed cur @ [(commit_lock_sql self nowait, [])],
                           result_rows := [],
                           result_lock := Some ''commit_row_lock''\<rparr>))
       \<and> (hold_commit_lock self cur ensure_current nowait = Inr (False, c)
          \<longrightarrow> nowait \<and> (\<exists>e. fails cur (commit_lock_sql self nowait) = Some e
                            \<and> lock_exceptions self e \<and> \<not> illegal_operation_exceptions self e))"
proof (rule conjI; rule impI)
  assume a: "fails cur (commit_lock_sql self nowait) = None \<and> commit_row_lock (db cur) = []"
  then have "hold_commit_lock_try cur (Stmt (commit_lock_sql self nowait))
               = Inl (UnableToAcquireCommitLockError no_row_message,
                      cur\<lparr>executed := executed cur @ [(commit_lock_sql self nowait, [])],
                          result_rows := [],
                          result_lock := Some ''commit_row_lock''\<rparr>)"
    by (simp add: hold_commit_lock_try_rows)
  then show "hold_commit_lock self cur ensure_current nowait
                = Inl (UnableToAcquireCommitLockError no_row_message,
                       cur\<lparr>executed := executed cur @ [(commit_lock_sql self nowait, [])],
                           result_rows := [],
                           result_lock := Some ''commit_row_lock''\<rparr>)"
    using assms(2) by (simp add: hold_commit_lock_cases [OF assms(1)])
next
  assume r: "hold_commit_lock self cur ensure_current nowait = Inr (False, c)"
  show "nowait \<and> (\<exists>e. fails cur (commit_lock_sql self nowait) = Some e
                            \<and> lock_exceptions self e \<and> \<not> illegal_operation_exceptions self e)"
  proof (cases "fails cur (commit_lock_sql self nowait)")
    case None
    then show ?thesis
      using r assms(2)
      by (simp add: hold_commit_lock_cases [OF assms(1)] hold_commit_lock_try_rows
          split: if_splits)
  next
    case (Some e)
    then have "hold_commit_lock_try cur (Stmt (commit_lock_sql self nowait))
                 = Inl (e, cur\<lparr>executed := executed cur @ [(commit_lock_sql self nowait, [])]\<rparr>)"
      by (rule hold_commit_lock_try_fails)
    with r Some show ?thesis
      by (simp add: hold_commit_lock_cases [OF assms(1)] split: if_splits)
  qed
qed

theorem no_row_raises_witness:
  "(\<exists>c. hold_commit_lock (AbstractLocker True dbapi_lock_exceptions dbapi_illegal_operation_exceptions)
      (ex_cursor (ex_db\<lparr>commit_row_lock := []\<rparr>)) False True
     = Inl (UnableToAcquireCommitLockError no_row_message, c))
   \<and> (\<exists>c. hold_commit_lock (AbstractLocker True dbapi_lock_exceptions dbapi_illegal_operation_exceptions)
      (ex_cursor (ex_db\<lparr>commit_row_lock := []\<rparr>)) False False
     = Inl (UnableToAcquireCommitLockError no_row_message, c))
   \<and> (\<exists>c. hold_commit_lock (AbstractLocker True dbapi_lock_exceptions dbapi_illegal_operation_exceptions)
      (failing_cursor ex_db (DatabaseError ''OperationalError'' ''could not obtain lock'')) False True
     = Inr (False, c))
   \<and> (\<exists>e. fails (failing_cursor ex_db (DatabaseError ''OperationalError'' ''could not obtain lock''))
              (Append Commit_lock '' NOWAIT'') = Some e
          \<and> dbapi_lock_exceptions e \<and> \<not> dbapi_illegal_operation_exceptions e)"
proof -
  let ?self = "AbstractLocker True dbapi_lock_exceptions dbapi_illegal_operation_exceptions"
  let ?e = "DatabaseError ''OperationalError'' ''could not obtain lock''"
  let ?empty = "ex_cursor (ex_db\<lparr>commit_row_lock := []\<rparr>)"
  have q: "queries_attr ?self = AbstractLocker_queries"
    by (simp add: AbstractLocker_def)
  have n: "\<not> lock_exceptions ?self (UnableToAcquireCommitLockError no_row_message)"
    by (simp add: AbstractLocker_def dbapi_lock_exceptions_def)
  have g: "fails ?empty (commit_lock_sql ?self nowait) = None \<and> commit_row_lock (db ?empty) = []"
    for nowait
    by (simp add: ex_cursor_def)
  have t: "hold_commit_lock_try (failing_cursor ex_db ?e) (Stmt (commit_lock_sql ?self True))
             = Inl (?e, (failing_cursor ex_db ?e)
                          \<lparr>executed := executed (failing_cursor ex_db ?e)
                                         @ [(commit_lock_sql ?self True, [])]\<rparr>)"
    by (rule hold_commit_lock_try_fails) (simp add: failing_cursor_def)
  have h: "\<exists>c. hold_commit_lock ?self (failing_cursor ex_db ?e) False True = Inr (False, c)"
    unfolding hold_commit_lock_cases [OF q] t
    by (simp add: AbstractLocker_def dbapi_illegal_operation_exceptions_def dbapi_lock_exceptions_def)
  then obtain c where hc: "hold_commit_lock ?self (failing_cursor ex_db ?e) False True = Inr (False, c)"
    by blast
  have s: "commit_lock_sql ?self True = Append Commit_lock '' NOWAIT''"
    by (simp add: commit_lock_sql_def AbstractLocker_def)
  have l: "lock_exceptions ?self = dbapi_lock_exceptions"
    "illegal_operation_exceptions ?self = dbapi_illegal_operation_exceptions"
    by (simp_all add: AbstractLocker_def)
  from no_row_raises [OF q n, of "failing_cursor ex_db ?e" True False c] hc
  have e: "\<exists>e. fails (failing_cursor ex_db ?e) (Append Commit_lock '' NOWAIT'') = Some e
          \<and> dbapi_lock_exceptions e \<and> \<not> dbapi_illegal_operation_exceptions e"
    unfolding s l by blast
  from no_row_raises [OF q n, of ?empty True False] g
  have a: "\<exists>c. hold_commit_lock ?self ?empty False True
                 = Inl (UnableToAcquireCommitLockError no_row_message, c)"
    by blast
  from no_row_raises [OF q n, of ?empty False False] g
  have b: "\<exists>c. hold_commit_lock ?self ?empty False False
                 = Inl (UnableToAcquireCommitLockError no_row_message, c)"
    by blast
  from a b h e show ?thesis
    by (intro conjI)
qed

text \<open>
  C10 as stated fails for "a row with a falsy first value": the test is on the row, not on
  its first value, and the row \<open>(0,)\<close> is not empty, so the call returns \<open>True\<close>.
\<close>

theorem no_row_claim_counterexample:
  "select_rows ex_db Commit_lock [] = Inr [[0]]
   \<and> (\<exists>c. hold_commit_lock (AbstractLocker True dbapi_lock_exceptions dbapi_illegal_operation_exceptions)
          (ex_cursor ex_db) False False = Inr (True, c))
   \<and> (\<exists>c. hold_commit_lock (AbstractLocker True dbapi_lock_exceptions dbapi_illegal_operation_exceptions)
          (ex_cursor ex_db) False True = Inr (True, c))"
proof -
  let ?self = "AbstractLocker True dbapi_lock_exceptions dbapi_illegal_operation_exceptions"
  have q: "queries_attr ?self = AbstractLocker_queries"
    by (simp add: AbstractLocker_def)
  have t: "\<exists>c. hold_commit_lock_try (ex_cursor ex_db) (Stmt (commit_lock_sql ?self nowait)) = Inr c"
    for nowait
    by (subst hold_commit_lock_try_rows) (simp_all add: ex_cursor_def ex_db_def)
  have "\<exists>c. hold_commit_lock ?self (ex_cursor ex_db) False nowait = Inr (True, c)" for nowait
    using t [of nowait] by (auto simp: hold_commit_lock_cases [OF q])
  moreover have "select_rows ex_db Commit_lock [] = Inr [[0]]"
    by (simp add: ex_db_def)
  ultimately show ?thesis
    by blast
qed

section \<open>Publishing the current pointers\<close>

lemma modified_at_current_object [simp]:
  "modified_at (d\<lparr>current_object := rows\<rparr>) tid = modified_at d tid"
  by (simp add: modified_at_def)

lemma update_current_meth_republishes:
  assumes "update_current_insert_query self = Update_current_insert"
    and "update_current_update_query self = Some Update_current_update"
    and "fails cur Update_current_insert = None"
    and "fails cur Update_current_update = None"
    and "distinct (map co_zoid (current_object (db cur)) @ created_at (db cur) tid)"
  shows "update_current_meth self cur tid =
           Inr (None, cur\<lparr>db := (db cur)\<lparr>current_object := republished (db cur) tid\<rparr>,
                          executed := executed cur
                             @ [(Update_current_insert, [tid]), (Update_current_update, [tid, tid])],
                          result_rows := [], result_lock := None\<rparr>)"
  using assms
  by (simp add: update_current_meth_def execute_def republished_def)

text \<open>
  C5. On a history-free instance \<open>update_current\<close> returns \<open>None\<close> and leaves the cursor,
  and so the database and the list of executed statements, as they were. On a
  history-preserving instance it executes the insert and the update statement:
  \<open>current_object\<close> gets a row for each object created at \<open>tid\<close> (\<open>prev_tid = 0\<close>) and
  the rows of the objects modified at \<open>tid\<close> (\<open>prev_tid \<noteq> 0\<close>) get \<open>tid\<close>.
\<close>

theorem update_current_noop_or_republish:
  assumes "update_current_insert_query self = Update_current_insert"
    and "update_current_update_query self = Some Update_current_update"
  shows "(\<not> keep_history self \<and> update_current_attr self \<noteq> Bound
          \<longrightarrow> update_current self cur tid = (self\<lparr>update_current_attr := No_op\<rparr>, Inr (None, cur)))
       \<and> (keep_history self \<and> update_current_attr self \<noteq> No_op
            \<and> fails cur Update_current_insert = None \<and> fails cur Update_current_update = None
            \<and> distinct (map co_zoid (current_object (db cur)) @ created_at (db cur) tid)
          \<longrightarrow> (\<exists>c. update_current self cur tid = (self\<lparr>update_current_attr := Bound\<rparr>, Inr (None, c))
                  \<and> executed c = executed cur
                       @ [(Update_current_insert, [tid]), (Update_current_update, [tid, tid])]
                  \<and> db c = (db cur)\<lparr>current_object := republished (db cur) tid\<rparr>))"
proof (rule conjI; rule impI)
  assume "\<not> keep_history self \<and> update_current_attr self \<noteq> Bound"
  then show "update_current self cur tid = (self\<lparr>update_current_attr := No_op\<rparr>, Inr (None, cur))"
    by (cases "update_current_attr self")
       (simp_all add: update_current_def noop_when_history_free_def)
next
  assume a: "keep_history self \<and> update_current_attr self \<noteq> No_op
            \<and> fails cur Update_current_insert = None \<and> fails cur Update_current_update = None
            \<and> distinct (map co_zoid (current_object (db cur)) @ created_at (db cur) tid)"
  let ?c = "cur\<lparr>db := (db cur)\<lparr>current_object := republished (db cur) tid\<rparr>,
                          executed := executed cur
                             @ [(Update_current_insert, [tid]), (Update_current_update, [tid, tid])],
                          result_rows := [], result_lock := None\<rparr>"
  from a have m: "update_current_meth self cur tid = Inr (None, ?c)"
    by (simp add: update_current_meth_republishes [OF assms])
  from a have "update_current self cur tid = (self\<lparr>update_current_attr := Bound\<rparr>, Inr (None, ?c))"
    by (cases "update_current_attr self")
       (simp_all add: update_current_def noop_when_history_free_def m)
  then show "\<exists>c. update_current self cur tid = (self\<lparr>update_current_attr := Bound\<rparr>, Inr (None, c))
                  \<and> executed c = executed cur
                       @ [(Update_current_insert, [tid]), (Update_current_update, [tid, tid])]
                  \<and> db c = (db cur)\<lparr>current_object := republished (db cur) tid\<rparr>"
    by (intro exI [of _ ?c]) simp
qed

theorem update_current_noop_or_republish_witness:
  "update_current (AbstractObjectMover False (\<lambda>b. [])) (ex_cursor ex_db_committing) 10
     = ((AbstractObjectMover False (\<lambda>b. []))\<lparr>update_current_attr := No_op\<rparr>,
        Inr (None, ex_cursor ex_db_committing))
   \<and> (\<exists>c. update_current (AbstractObjectMover True (\<lambda>b. [])) (ex_cursor ex_db_committing) 10
           = ((AbstractObjectMover True (\<lambda>b. []))\<lparr>update_current_attr := Bound\<rparr>, Inr (None, c))
        \<and> executed c = [(Update_current_insert, [10]), (Update_current_update, [10, 10])]
        \<and> current_object (db c)
            = [\<lparr>co_zoid = 9, co_tid = 10\<rparr>, \<lparr>co_zoid = 3, co_tid = 2\<rparr>,
               \<lparr>co_zoid = 7, co_tid = 1\<rparr>, \<lparr>co_zoid = 5, co_tid = 10\<rparr>])"
proof -
  let ?hf = "AbstractObjectMover False (\<lambda>b. [])"
  let ?hp = "AbstractObjectMover True (\<lambda>b. [])"
  have q: "update_current_insert_query (AbstractObjectMover kh (\<lambda>b. [])) = Update_current_insert"
    "update_current_update_query (AbstractObjectMover kh (\<lambda>b. [])) = Some Update_current_update" for kh
    by (simp_all add: AbstractObjectMover_def)
  have hf: "\<not> keep_history ?hf \<and> update_current_attr ?hf \<noteq> Bound"
    by (simp add: AbstractObjectMover_def)
  have hp: "keep_history ?hp \<and> update_current_attr ?hp \<noteq> No_op
            \<and> fails (ex_cursor ex_db_committing) Update_current_insert = None
            \<and> fails (ex_cursor ex_db_committing) Update_current_update = None
            \<and> distinct (map co_zoid (current_object (db (ex_cursor ex_db_committing)))
                          @ created_at (db (ex_cursor ex_db_committing)) 10)"
    by (simp add: AbstractObjectMover_def ex_cursor_def ex_db_committing_def ex_db_def created_at_def)
  have r: "republished (db (ex_cursor ex_db_committing)) 10
             = [\<lparr>co_zoid = 9, co_tid = 10\<rparr>, \<lparr>co_zoid = 3, co_tid = 2\<rparr>,
                \<lparr>co_zoid = 7, co_tid = 1\<rparr>, \<lparr>co_zoid = 5, co_tid = 10\<rparr>]"
    by (simp add: republished_def ex_cursor_def ex_db_committing_def ex_db_def created_at_def
        modified_at_def)
  have e: "executed (ex_cursor ex_db_committing) = []"
    by (simp add: ex_cursor_def)
  show ?thesis
    using update_current_noop_or_republish [OF q, of False "ex_cursor ex_db_committing" 10]
      update_current_noop_or_republish [OF q, of True "ex_cursor ex_db_committing" 10]
      hf hp
    by (auto simp: r e)
qed

section \<open>Storing and staging states\<close>

lemma compute_md5sum_None [simp]: "snd (compute_md5sum self None) = None"
  by (cases "compute_md5sum_attr self")
     (simp_all add: compute_md5sum_def noop_when_history_free_def compute_md5sum_meth_def)

text \<open>
  C6, amended. Storing directly (\<open>_generic_restore\<close>): with history kept, a \<open>None\<close>
  payload still writes a row for the object, with \<open>NULL\<close> state, \<open>NULL\<close> md5 and size 0;
  history-free, a \<open>None\<close> or empty payload deletes the object's row and writes none; a
  non-empty payload is written in both modes, with its length as size. Staging
  (\<open>_generic_store_temp\<close>) does not look at the mode: a payload that is not \<open>None\<close>,
  the empty one too, is written to \<open>temp_store\<close>.
\<close>

theorem restore_tombstone_or_delete:
  "(keep_history self \<longrightarrow>
      snd (generic_restore self batcher oid tid None command suffix)
        = before_insert batcher command suffix
            (Delete_from ''object_state'' [(''zoid'', PyInt oid), (''tid'', PyInt tid)])
          @ [Insert_into ''object_state (zoid, tid, prev_tid, md5, state_size, state)''
               ''%s, %s, COALESCE((SELECT tid FROM current_object WHERE zoid = %s), 0), %s, %s, %s''
               [PyInt oid, PyInt tid, PyInt oid, PyNone, PyInt 0, PyNone]
               (PyTuple [PyInt oid, PyInt tid]) 0 command suffix])
   \<and> (\<not> keep_history self \<and> (data = None \<or> data = Some []) \<longrightarrow>
      snd (generic_restore self batcher oid tid data command suffix)
        = batcher @ [Delete_from ''object_state'' [(''zoid'', PyInt oid)]])
   \<and> (d \<noteq> [] \<longrightarrow>
      snd (generic_restore self batcher oid tid (Some d) command suffix)
        = (if keep_history self
           then before_insert batcher command suffix
                  (Delete_from ''object_state'' [(''zoid'', PyInt oid), (''tid'', PyInt tid)])
                @ [Insert_into ''object_state (zoid, tid, prev_tid, md5, state_size, state)''
                     ''%s, %s, COALESCE((SELECT tid FROM current_object WHERE zoid = %s), 0), %s, %s, %s''
                     [PyInt oid, PyInt tid, PyInt oid,
                      opt_str (snd (compute_md5sum self (Some d))), PyInt (int (length d)),
                      Binary (PyBytes d)]
                     (PyTuple [PyInt oid, PyInt tid]) (int (length d)) command suffix]
           else before_insert batcher command suffix
                  (Delete_from ''object_state'' [(''zoid'', PyInt oid)])
                @ [Insert_into ''object_state (zoid, tid, state_size, state)'' ''%s, %s, %s, %s''
                     [PyInt oid, PyInt tid, PyInt (int (length d)), Binary (PyBytes d)]
                     (PyInt oid) (int (length d)) command suffix]))
   \<and> snd (generic_store_temp self batcher oid prev_tid (Some d') command suffix)
        = Inr (before_insert batcher command suffix
                 (Delete_from ''temp_store'' [(''zoid'', PyInt oid)])
               @ [Insert_into ''temp_store (zoid, prev_tid, md5, state)'' ''%s, %s, %s, %s''
                    [PyInt oid, PyInt prev_tid, opt_str (snd (compute_md5sum self (Some d'))),
                     Binary (PyBytes d')]
                    (PyInt oid) (int (length d')) command suffix])"
proof (intro conjI impI)
  assume "keep_history self"
  then show "snd (generic_restore self batcher oid tid None command suffix)
        = before_insert batcher command suffix
            (Delete_from ''object_state'' [(''zoid'', PyInt oid), (''tid'', PyInt tid)])
          @ [Insert_into ''object_state (zoid, tid, prev_tid, md5, state_size, state)''
               ''%s, %s, COALESCE((SELECT tid FROM current_object WHERE zoid = %s), 0), %s, %s, %s''
               [PyInt oid, PyInt tid, PyInt oid, PyNone, PyInt 0, PyNone]
               (PyTuple [PyInt oid, PyInt tid]) 0 command suffix]"
    using compute_md5sum_None [of self]
    by (simp add: generic_restore_def before_insert_def opt_str_def split_beta Let_def)
next
  assume "\<not> keep_history self \<and> (data = None \<or> data = Some [])"
  then show "snd (generic_restore self batcher oid tid data command suffix)
        = batcher @ [Delete_from ''object_state'' [(''zoid'', PyInt oid)]]"
    by (auto simp: generic_restore_def split_beta Let_def)
next
  assume "d \<noteq> []"
  then show "snd (generic_restore self batcher oid tid (Some d) command suffix)
        = (if keep_history self
           then before_insert batcher command suffix
                  (Delete_from ''object_state'' [(''zoid'', PyInt oid), (''tid'', PyInt tid)])
                @ [Insert_into ''object_state (zoid, tid, prev_tid, md5, state_size, state)''
                     ''%s, %s, COALESCE((SELECT tid FROM current_object WHERE zoid = %s), 0), %s, %s, %s''
                     [PyInt oid, PyInt tid, PyInt oid,
                      opt_str (snd (compute_md5sum self (Some d))), PyInt (int (length d)),
                      Binary (PyBytes d)]
                     (PyTuple [PyInt oid, PyInt tid]) (int (length d)) command suffix]
           else before_insert batcher command suffix
                  (Delete_from ''object_state'' [(''zoid'', PyInt oid)])
                @ [Insert_into ''object_state (zoid, tid, state_size, state)'' ''%s, %s, %s, %s''
                     [PyInt oid, PyInt tid, PyInt (int (length d)), Binary (PyBytes d)]
                     (PyInt oid) (int (length d)) command suffix])"
    by (simp add: generic_restore_def before_insert_def split_beta Let_def)
next
  show "snd (generic_store_temp self batcher oid prev_tid (Some d') command suffix)
        = Inr (before_insert batcher command suffix
                 (Delete_from ''temp_store'' [(''zoid'', PyInt oid)])
               @ [Insert_into ''temp_store (zoid, prev_tid, md5, state)'' ''%s, %s, %s, %s''
                    [PyInt oid, PyInt prev_tid, opt_str (snd (compute_md5sum self (Some d'))),
                     Binary (PyBytes d')]
                    (PyInt oid) (int (length d')) command suffix])"
    by (simp add: generic_store_temp_def before_insert_def split_beta Let_def)
qed

theorem restore_tombstone_or_delete_witness:
  "snd (generic_restore (AbstractObjectMover True (\<lambda>b. ''d41d8cd9'')) [] 7 2 None ''INSERT'' [])
     = [Delete_from ''object_state'' [(''zoid'', PyInt 7), (''tid'', PyInt 2)],
        Insert_into ''object_state (zoid, tid, prev_tid, md5, state_size, state)''
          ''%s, %s, COALESCE((SELECT tid FROM current_object WHERE zoid = %s), 0), %s, %s, %s''
          [PyInt 7, PyInt 2, PyInt 7, PyNone, PyInt 0, PyNone]
          (PyTuple [PyInt 7, PyInt 2]) 0 ''INSERT'' []]
   \<and> snd (generic_restore (AbstractObjectMover False (\<lambda>b. ''d41d8cd9'')) [] 7 2 (Some []) ''INSERT'' [])
     = [Delete_from ''object_state'' [(''zoid'', PyInt 7)]]
   \<and> snd (generic_restore (AbstractObjectMover False (\<lambda>b. ''d41d8cd9'')) [] 7 2 (Some ''B'') ''INSERT'' [])
     = [Delete_from ''object_state'' [(''zoid'', PyInt 7)],
        Insert_into ''object_state (zoid, tid, state_size, state)'' ''%s, %s, %s, %s''
          [PyInt 7, PyInt 2, PyInt 1, Binary (PyBytes ''B'')] (PyInt 7) 1 ''INSERT'' []]"
proof -
  let ?hp = "AbstractObjectMover True (\<lambda>b. ''d41d8cd9'')"
  let ?hf = "AbstractObjectMover False (\<lambda>b. ''d41d8cd9'')"
  have k: "keep_history ?hp" "\<not> keep_history ?hf \<and> (Some [] = (None :: bytes option) \<or> Some [] = Some ([] :: bytes))"
    "''B'' \<noteq> []"
    by (simp_all add: AbstractObjectMover_def)
  show ?thesis
    using restore_tombstone_or_delete [of ?hp "[]" 7 2 "''INSERT''" "[]" "Some []" "''B''" 0 "''B''"]
      restore_tombstone_or_delete [of ?hf "[]" 7 2 "''INSERT''" "[]" "Some []" "''B''" 0 "''B''"]
      k
    by (simp add: before_insert_def)
qed

text \<open>
  C6 as stated fails for staging: history-free, an empty payload is written to \<open>temp_store\<close>
  and no row of \<open>object_state\<close> is deleted; with history kept, a \<open>None\<close> payload writes
  no row, it is a \<open>TypeError\<close>.
\<close>

theorem staging_claim_counterexample:
  "snd (generic_store_temp (AbstractObjectMover False (\<lambda>b. ''d41d8cd9'')) [] 7 0 (Some [])
          ''INSERT'' ''ON CONFLICT (zoid) DO UPDATE'')
     = Inr [Insert_into ''temp_store (zoid, prev_tid, md5, state)'' ''%s, %s, %s, %s''
              [PyInt 7, PyInt 0, PyNone, Binary (PyBytes [])] (PyInt 7) 0
              ''INSERT'' ''ON CONFLICT (zoid) DO UPDATE'']
   \<and> snd (generic_store_temp (AbstractObjectMover True (\<lambda>b. ''d41d8cd9'')) [] 7 0 None
          ''INSERT'' ''ON CONFLICT (zoid) DO UPDATE'')
     = Inl (TypeError (''object of type '' @ [CHR 0x27] @ ''NoneType'' @ [CHR 0x27] @ '' has no len()''),
            [])"
  by (simp add: generic_store_temp_def compute_md5sum_def noop_when_history_free_def
      compute_md5sum_meth_def AbstractObjectMover_def opt_str_def)

section \<open>Downloading a blob\<close>

lemma download_blob_rows:
  assumes "fails cur Select_blob_chunk = None"
  shows "execute cur Select_blob_chunk [oid, tid]
           = Inr (cur\<lparr>executed := executed cur @ [(Select_blob_chunk, [oid, tid])],
                     result_rows := map (\<lambda>r. [bc_chunk r])
                        (sort_key bc_chunk_num
                           (filter (\<lambda>r. bc_zoid r = oid \<and> bc_tid r = tid) (blob_chunk (db cur)))),
                     result_lock := None\<rparr>)"
  using assms by (simp add: execute_def)

text \<open>
  With exactly one chunk row for the key, whose large object exists, and a file that can
  be written, \<open>download_blob\<close> writes the large object to the file and returns its
  length, with or without assertions.
\<close>

lemma download_blob_one_chunk:
  assumes "fails cur Select_blob_chunk = None"
    and "filter (\<lambda>r. bc_zoid r = oid \<and> bc_tid r = tid) (blob_chunk (db cur)) = [r]"
    and "map_of (large_objects (db cur)) (bc_chunk r) = Some blob"
    and "\<not> unwritable fs filename"
  shows "\<exists>c. download_blob self cur fs optimize oid tid filename
               = Inr (int (length blob), c, fs\<lparr>contents := (contents fs)(filename \<mapsto> blob)\<rparr>)
             \<and> db c = db cur"
proof -
  let ?c1 = "cur\<lparr>executed := executed cur @ [(Select_blob_chunk, [oid, tid])],
                 result_rows := [[bc_chunk r]], result_lock := None\<rparr>"
  from assms(2) have ex: "execute cur Select_blob_chunk [oid, tid] = Inr ?c1"
    by (simp add: download_blob_rows [OF assms(1)])
  from assms(3,4) have "download_blob self cur fs optimize oid tid filename
      = Inr (int (length blob), snd (fetchall ?c1), fs\<lparr>contents := (contents fs)(filename \<mapsto> blob)\<rparr>)"
    by (simp add: download_blob_def ex fetchall_def)
  moreover have "db (snd (fetchall ?c1)) = db cur"
    by (simp add: fetchall_def)
  ultimately show ?thesis
    by blast
qed

lemma download_blob_ten_bytes:
  "\<exists>c. download_blob (AbstractObjectMover True (\<lambda>b. [])) (ex_cursor ex_blob_db) ex_fs False 4 10 ''dest''
          = Inr (10, c, ex_fs\<lparr>contents := (contents ex_fs)(''dest'' \<mapsto> ''0123456789'')\<rparr>)"
proof -
  have f: "fails (ex_cursor ex_blob_db) Select_blob_chunk = None"
    by (simp add: ex_cursor_def)
  have a: "filter (\<lambda>r. bc_zoid r = 4 \<and> bc_tid r = 10) (blob_chunk (db (ex_cursor ex_blob_db)))
             = [\<lparr>bc_zoid = 4, bc_tid = 10, bc_chunk_num = 0, bc_chunk = 77\<rparr>]"
    by (simp add: ex_cursor_def ex_blob_db_def)
  have b: "map_of (large_objects (db (ex_cursor ex_blob_db)))
               (bc_chunk \<lparr>bc_zoid = 4, bc_tid = 10, bc_chunk_num = 0, bc_chunk = 77\<rparr>)
             = Some ''0123456789''"
    by (simp add: ex_cursor_def ex_blob_db_def)
  have w: "\<not> unwritable ex_fs ''dest''"
    by (simp add: ex_fs_def)
  from download_blob_one_chunk [OF f a b w, of "AbstractObjectMover True (\<lambda>b. [])" False]
  obtain c where "download_blob (AbstractObjectMover True (\<lambda>b. [])) (ex_cursor ex_blob_db) ex_fs False 4 10 ''dest''
          = Inr (int (length ''0123456789''), c,
                 ex_fs\<lparr>contents := (contents ex_fs)(''dest'' \<mapsto> ''0123456789'')\<rparr>)"
    by blast
  then show ?thesis
    by simp
qed

text \<open>
  Without a chunk row for the key, \<open>download_blob\<close> fails its own assertion, and without
  assertions the indexing of the empty list of rows; several rows fail the assertion too.
\<close>

lemma download_blob_not_one_chunk:
  assumes "fails cur Select_blob_chunk = None"
  shows "(length (filter (\<lambda>r. bc_zoid r = oid \<and> bc_tid r = tid) (blob_chunk (db cur))) \<noteq> 1
            \<longrightarrow> download_blob self cur fs False oid tid filename = Inl AssertionError)
       \<and> (filter (\<lambda>r. bc_zoid r = oid \<and> bc_tid r = tid) (blob_chunk (db cur)) = []
            \<longrightarrow> download_blob self cur fs True oid tid filename = Inl IndexError)"
  by (simp add: download_blob_def download_blob_rows [OF assms] fetchall_def)

text \<open>
  C9. For a key with no chunk row, the claim has \<open>download_blob\<close> raise a not-found
  error. The code does not: on the example database, which has no chunk for object 4 at
  transaction 10, it raises \<open>AssertionError\<close> (from \<open>assert len(rows) == 1\<close>), and
  \<open>IndexError\<close> when the interpreter runs without assertions; neither is the not-found
  error, and no file is written for the caller to find missing.
\<close>

theorem download_blob_no_chunk_row:
  "filter (\<lambda>r. bc_zoid r = 4 \<and> bc_tid r = 10) (blob_chunk ex_db) = []
   \<and> download_blob (AbstractObjectMover True (\<lambda>b. [])) (ex_cursor ex_db) ex_fs False 4 10 ''dest''
       = Inl AssertionError
   \<and> download_blob (AbstractObjectMover True (\<lambda>b. [])) (ex_cursor ex_db) ex_fs True 4 10 ''dest''
       = Inl IndexError
   \<and> \<not> not_found_error AssertionError \<and> \<not> not_found_error IndexError"
  by (simp add: download_blob_def execute_def fetchall_def ex_cursor_def ex_db_def)

end
